theory Spec2Isabelle
  imports Complex_Main "HOL-Library.Word"
begin

unbundle bit_operations_syntax

section \<open>The tabular dataset\<close>

text \<open>
  The scripts work on a pandas DataFrame. A cell is a number, a text value or the missing
  value; a column has a dtype token and one cell per row; a frame has the list of its row
  labels (\<open>len(df)\<close> is its length) and its columns in order. Floating-point numbers are
  idealised as reals: rounding is not modelled.
\<close>

datatype cell = Num real | Txt string | NaN

record column =
  dtype :: string
  cells :: "cell list"

record dataframe =
  index :: "int list"
  cols :: "(string \<times> column) list"

datatype error =
    KeyError "string list"
  | TypeError
  | ValueError string
  | ZeroDivisionError
  | UnboundLocalError string
  | FileNotFoundError string

definition len_df :: "dataframe \<Rightarrow> nat" where
  "len_df d = length (index d)"

definition columns :: "dataframe \<Rightarrow> string list" where
  "columns d = map fst (cols d)"

text \<open>\<open>df[name]\<close>: the column, or KeyError.\<close>

definition getitem :: "dataframe \<Rightarrow> string \<Rightarrow> error + column" where
  "getitem d name =
     (case map_of (cols d) name of None \<Rightarrow> Inl (KeyError [name]) | Some c \<Rightarrow> Inr c)"

text \<open>\<open>d[k] = v\<close> on a dictionary in insertion order, and \<open>df[name] = c\<close> on a frame: the
  value is replaced where it stands, or added as the last one.\<close>

fun dict_set :: "'k \<Rightarrow> 'v \<Rightarrow> ('k \<times> 'v) list \<Rightarrow> ('k \<times> 'v) list" where
  "dict_set k v [] = [(k, v)]"
| "dict_set k v ((k', v') # kvs) =
     (if k' = k then (k', v) # kvs else (k', v') # dict_set k v kvs)"

definition setitem :: "dataframe \<Rightarrow> string \<Rightarrow> column \<Rightarrow> dataframe" where
  "setitem d name c = d\<lparr>cols := dict_set name c (cols d)\<rparr>"

text \<open>
  A numeric series: \<open>None\<close> is the missing value. Arithmetic, comparison with a number
  and the statistics of a series raise TypeError on a text cell.
\<close>

fun numeric :: "cell list \<Rightarrow> error + real option list" where
  "numeric [] = Inr []"
| "numeric (Num x # cs) = (case numeric cs of Inl e \<Rightarrow> Inl e | Inr xs \<Rightarrow> Inr (Some x # xs))"
| "numeric (NaN # cs) = (case numeric cs of Inl e \<Rightarrow> Inl e | Inr xs \<Rightarrow> Inr (None # xs))"
| "numeric (Txt s # cs) = Inl TypeError"

fun dropna :: "real option list \<Rightarrow> real list" where
  "dropna [] = []"
| "dropna (None # xs) = dropna xs"
| "dropna (Some x # xs) = x # dropna xs"

fun to_cell :: "real option \<Rightarrow> cell" where
  "to_cell None = NaN"
| "to_cell (Some x) = Num x"

text \<open>
  \<open>Series.quantile(q)\<close> with the default linear interpolation, over the values that are
  not missing: position \<open>q * (n - 1)\<close> in the sorted values, interpolated between its two
  neighbours. No value gives the missing value.
\<close>

definition quantile :: "real \<Rightarrow> real list \<Rightarrow> real option" where
  "quantile q vs =
     (if vs = [] then None
      else let s = sort vs;
               pos = q * real (length s - 1);
               lo = nat \<lfloor>pos\<rfloor>;
               hi = min (lo + 1) (length s - 1)
           in Some (s ! lo + (s ! hi - s ! lo) * (pos - real lo)))"

definition mean :: "real list \<Rightarrow> real option" where
  "mean vs = (if vs = [] then None else Some (sum_list vs / real (length vs)))"

text \<open>Sum of squared deviations divided by \<open>n - ddof\<close>; missing when \<open>n \<le> ddof\<close>.\<close>

definition variance :: "nat \<Rightarrow> real list \<Rightarrow> real option" where
  "variance ddof vs =
     (if length vs \<le> ddof then None
      else let m = sum_list vs / real (length vs)
           in Some (sum_list (map (\<lambda>x. (x - m)\<^sup>2) vs) / real (length vs - ddof)))"

text \<open>\<open>Series.std()\<close>: the sample standard deviation (\<open>ddof = 1\<close>).\<close>

definition std :: "real list \<Rightarrow> real option" where
  "std vs = map_option sqrt (variance 1 vs)"

section \<open>DataTransformer\<close>

definition CONTINUOUS_FEATURES :: "string list" where
  "CONTINUOUS_FEATURES =
     [''Air temperature [K]'', ''Process temperature [K]'', ''Rotational speed [rpm]'',
      ''Torque [Nm]'', ''Tool wear [min]'']"

text \<open>
  One entry of the transformation log: the dictionary's \<open>timestamp\<close> and \<open>operation\<close>
  keys, and the keys that depend on the operation.
\<close>

datatype log_details =
    OutlierDetails string real "(string \<times> nat) list"
  | NormalizationDetails string "string list" "(string \<times> (string \<times> real option) list) list"
  | FeatureDetails "string list" string

record log_entry =
  timestamp :: string
  operation :: string
  details :: log_details

text \<open>
  The state of a DataTransformer. \<open>scaler\<close> is the StandardScaler object: unfitted, or
  holding \<open>mean_\<close> and \<open>scale_\<close> of each feature.
\<close>

record transformer =
  df :: dataframe
  df_transformed :: "dataframe option"
  scaler :: "(real option \<times> real option) list option"
  transformation_log :: "log_entry list"

definition init_transformer :: "dataframe \<Rightarrow> transformer" where
  "init_transformer d =
     \<lparr>df = d, df_transformed = None, scaler = None, transformation_log = []\<rparr>"

subsection \<open>detect_outliers\<close>

text \<open>The rows outside \<open>[Q1 - threshold * IQR, Q3 + threshold * IQR]\<close>; a comparison with
  a missing value or a missing bound is false.\<close>

definition iqr_mask :: "real \<Rightarrow> real option list \<Rightarrow> bool list" where
  "iqr_mask threshold xs =
     (case (quantile 0.25 (dropna xs), quantile 0.75 (dropna xs)) of
        (Some Q1, Some Q3) \<Rightarrow>
          (let IQR = Q3 - Q1;
               lower_bound = Q1 - threshold * IQR;
               upper_bound = Q3 + threshold * IQR
           in map (\<lambda>c. case c of None \<Rightarrow> False
                        | Some x \<Rightarrow> x < lower_bound \<or> x > upper_bound) xs)
      | _ \<Rightarrow> map (\<lambda>c. False) xs)"

text \<open>The rows with \<open>|x - mean| / std > threshold\<close>. A missing mean or deviation, and a
  deviation of zero (every quotient is then 0/0), leave every comparison false.\<close>

definition zscore_mask :: "real \<Rightarrow> real option list \<Rightarrow> bool list" where
  "zscore_mask threshold xs =
     (case (mean (dropna xs), std (dropna xs)) of
        (Some m, Some s) \<Rightarrow>
          (if s = 0 then map (\<lambda>c. False) xs
           else map (\<lambda>c. case c of None \<Rightarrow> False
                         | Some x \<Rightarrow> \<bar>(x - m) / s\<bar> > threshold) xs)
      | _ \<Rightarrow> map (\<lambda>c. False) xs)"

text \<open>The boolean row selection of one feature. With a method name that is neither
  \<open>iqr\<close> nor \<open>zscore\<close> no branch binds \<open>outliers\<close>, and its first use raises.\<close>

definition outlier_mask :: "string \<Rightarrow> real \<Rightarrow> dataframe \<Rightarrow> string \<Rightarrow> error + bool list" where
  "outlier_mask method threshold d feature =
     (if method = ''iqr'' then
        (case getitem d feature of Inl e \<Rightarrow> Inl e
         | Inr c \<Rightarrow> (case numeric (cells c) of Inl e \<Rightarrow> Inl e
                    | Inr xs \<Rightarrow> Inr (iqr_mask threshold xs)))
      else if method = ''zscore'' then
        (case getitem d feature of Inl e \<Rightarrow> Inl e
         | Inr c \<Rightarrow> (case numeric (cells c) of Inl e \<Rightarrow> Inl e
                    | Inr xs \<Rightarrow> Inr (zscore_mask threshold xs)))
      else Inl (UnboundLocalError ''outliers''))"

record outlier_entry =
  count :: nat
  percentage :: real
  indices :: "int list option"

text \<open>The labels of the selected rows.\<close>

definition select_index :: "dataframe \<Rightarrow> bool list \<Rightarrow> int list" where
  "select_index d sel = map fst (filter snd (zip (index d) sel))"

definition feature_info :: "string \<Rightarrow> real \<Rightarrow> dataframe \<Rightarrow> string \<Rightarrow> error + outlier_entry" where
  "feature_info method threshold d feature =
     (case outlier_mask method threshold d feature of Inl e \<Rightarrow> Inl e
      | Inr sel \<Rightarrow>
          (let outliers = select_index d sel in
           if len_df d = 0 then Inl ZeroDivisionError
           else Inr \<lparr>count = length outliers,
                     percentage = real (length outliers) / real (len_df d) * 100,
                     indices = (if length outliers < 100 then Some outliers else None)\<rparr>))"

fun outlier_loop ::
  "string \<Rightarrow> real \<Rightarrow> dataframe \<Rightarrow> string list \<Rightarrow> error + (string \<times> outlier_entry) list" where
  "outlier_loop method threshold d [] = Inr []"
| "outlier_loop method threshold d (feature # fs) =
     (case feature_info method threshold d feature of Inl e \<Rightarrow> Inl e
      | Inr info \<Rightarrow>
          (case outlier_loop method threshold d fs of Inl e \<Rightarrow> Inl e
           | Inr rest \<Rightarrow> Inr ((feature, info) # rest)))"

text \<open>\<open>now\<close> is the clock reading of the call. An exception leaves the state as it was
  when it was raised, so every outcome comes with the state.\<close>

definition detect_outliers ::
  "string \<Rightarrow> string \<Rightarrow> real \<Rightarrow> transformer \<Rightarrow> (error + (string \<times> outlier_entry) list) \<times> transformer" where
  "detect_outliers now method threshold tr =
     (case outlier_loop method threshold (df tr) CONTINUOUS_FEATURES of
        Inl e \<Rightarrow> (Inl e, tr)
      | Inr outlier_info \<Rightarrow>
          (Inr outlier_info,
           tr\<lparr>transformation_log := transformation_log tr @
                [\<lparr>timestamp = now, operation = ''outlier_detection'',
                  details = OutlierDetails method threshold
                              (map (\<lambda>(k, v). (k, count v)) outlier_info)\<rparr>]\<rparr>))"

subsection \<open>normalize_features\<close>

text \<open>
  The three scalers are scikit-learn's. \<open>df[CONTINUOUS_FEATURES]\<close> raises KeyError with
  the names that are not columns. The scalers validate their input first: a text cell or
  a frame without rows is a ValueError. They fit on the values that are not missing and
  leave the missing ones missing. A fitted scale of zero is replaced by one.
\<close>

definition select_cols :: "dataframe \<Rightarrow> string list \<Rightarrow> error + column list" where
  "select_cols d names =
     (let missing = filter (\<lambda>n. map_of (cols d) n = None) names
      in if missing \<noteq> [] then Inl (KeyError missing)
         else Inr (List.map_filter (map_of (cols d)) names))"

fun check_cols :: "column list \<Rightarrow> error + real option list list" where
  "check_cols [] = Inr []"
| "check_cols (c # cs) =
     (case numeric (cells c) of
        Inl e \<Rightarrow> Inl (ValueError ''could not convert string to float'')
      | Inr xs \<Rightarrow> (case check_cols cs of Inl e \<Rightarrow> Inl e | Inr X \<Rightarrow> Inr (xs # X)))"

definition check_array :: "dataframe \<Rightarrow> column list \<Rightarrow> error + real option list list" where
  "check_array d cs =
     (case check_cols cs of Inl e \<Rightarrow> Inl e
      | Inr X \<Rightarrow> if len_df d = 0 then Inl (ValueError ''Found array with 0 sample(s)'')
                 else Inr X)"

fun handle_zeros_in_scale :: "real option \<Rightarrow> real option" where
  "handle_zeros_in_scale None = None"
| "handle_zeros_in_scale (Some s) = (if s = 0 then Some 1 else Some s)"

text \<open>Arithmetic with the missing value gives the missing value.\<close>

fun nan_op :: "(real \<Rightarrow> real \<Rightarrow> real) \<Rightarrow> real option \<Rightarrow> real option \<Rightarrow> real option" where
  "nan_op f (Some a) (Some b) = Some (f a b)"
| "nan_op f _ _ = None"

text \<open>StandardScaler: \<open>mean_\<close> and \<open>scale_\<close> (the population standard deviation);
  the transform is \<open>(x - mean_) / scale_\<close>.\<close>

definition standard_fit :: "real option list \<Rightarrow> real option \<times> real option" where
  "standard_fit xs =
     (mean (dropna xs), handle_zeros_in_scale (map_option sqrt (variance 0 (dropna xs))))"

definition standard_transform :: "real option \<times> real option \<Rightarrow> real option list \<Rightarrow> real option list" where
  "standard_transform p xs = map (\<lambda>x. nan_op (/) (nan_op (-) x (fst p)) (snd p)) xs"

text \<open>MinMaxScaler with the range (0, 1): \<open>data_min_\<close> and \<open>data_max_\<close>; the transform is
  \<open>x * scale_ + min_\<close> with \<open>scale_ = 1 / (data_max_ - data_min_)\<close> and
  \<open>min_ = 0 - data_min_ * scale_\<close>.\<close>

definition min_list_opt :: "real list \<Rightarrow> real option" where
  "min_list_opt vs = (if vs = [] then None else Some (Min (set vs)))"

definition max_list_opt :: "real list \<Rightarrow> real option" where
  "max_list_opt vs = (if vs = [] then None else Some (Max (set vs)))"

definition minmax_fit :: "real option list \<Rightarrow> real option \<times> real option" where
  "minmax_fit xs = (min_list_opt (dropna xs), max_list_opt (dropna xs))"

definition minmax_transform :: "real option \<times> real option \<Rightarrow> real option list \<Rightarrow> real option list" where
  "minmax_transform p xs =
     (let data_range = nan_op (-) (snd p) (fst p);
          scale = nan_op (/) (Some 1) (handle_zeros_in_scale data_range);
          min' = nan_op (-) (Some 0) (nan_op (*) (fst p) scale)
      in map (\<lambda>x. nan_op (+) (nan_op (*) x scale) min') xs)"

text \<open>RobustScaler: \<open>center_\<close> (the median) and \<open>scale_\<close> (the inter-quartile range);
  the transform is \<open>(x - center_) / scale_\<close>.\<close>

definition robust_fit :: "real option list \<Rightarrow> real option \<times> real option" where
  "robust_fit xs =
     (quantile 0.5 (dropna xs),
      handle_zeros_in_scale
        (nan_op (-) (quantile 0.75 (dropna xs)) (quantile 0.25 (dropna xs))))"

definition robust_transform :: "real option \<times> real option \<Rightarrow> real option list \<Rightarrow> real option list" where
  "robust_transform p xs = map (\<lambda>x. nan_op (/) (nan_op (-) x (fst p)) (snd p)) xs"

text \<open>\<open>df_transformed[CONTINUOUS_FEATURES] = array\<close>: each feature column becomes the
  matching column of the array, as floats.\<close>

definition assign_features :: "dataframe \<Rightarrow> real option list list \<Rightarrow> dataframe" where
  "assign_features d X =
     foldl (\<lambda>d' (name, xs). setitem d' name \<lparr>dtype = ''float64'', cells = map to_cell xs\<rparr>)
       d (zip CONTINUOUS_FEATURES X)"

definition scaling_params ::
  "string \<Rightarrow> string \<Rightarrow> (real option \<times> real option) list \<Rightarrow> (string \<times> (string \<times> real option) list) list" where
  "scaling_params k1 k2 fitted =
     map (\<lambda>(feature, a, b). (feature, [(k1, a), (k2, b)])) (zip CONTINUOUS_FEATURES fitted)"

text \<open>The shared tail of \<open>normalize_features\<close>: the log entry and the returned frame.\<close>

definition log_normalization ::
  "string \<Rightarrow> string \<Rightarrow> (string \<times> (string \<times> real option) list) list \<Rightarrow> dataframe \<Rightarrow> transformer
     \<Rightarrow> (error + dataframe) \<times> transformer" where
  "log_normalization now method params d tr =
     (Inr d,
      tr\<lparr>transformation_log := transformation_log tr @
           [\<lparr>timestamp = now, operation = ''normalization'',
             details = NormalizationDetails method CONTINUOUS_FEATURES params\<rparr>]\<rparr>)"

text \<open>
  The first statement replaces \<open>df_transformed\<close> by a copy of \<open>df\<close>, before the method
  name is looked at. With a name that is none of the three, no branch binds
  \<open>scaling_params\<close>, and building the log entry raises. \<open>StandardScaler.fit\<close> resets the
  scaler before it validates its input.
\<close>

definition normalize_features ::
  "string \<Rightarrow> string \<Rightarrow> transformer \<Rightarrow> (error + dataframe) \<times> transformer" where
  "normalize_features now method tr =
     (let tr1 = tr\<lparr>df_transformed := Some (df tr)\<rparr> in
      if method = ''standard'' then
        (case select_cols (df tr) CONTINUOUS_FEATURES of Inl e \<Rightarrow> (Inl e, tr1)
         | Inr cs \<Rightarrow>
             (case check_array (df tr) cs of Inl e \<Rightarrow> (Inl e, tr1\<lparr>scaler := None\<rparr>)
              | Inr X \<Rightarrow>
                  (let fitted = map standard_fit X;
                       d = assign_features (df tr) (map2 standard_transform fitted X)
                   in log_normalization now method (scaling_params ''mean'' ''std'' fitted) d
                        (tr1\<lparr>scaler := Some fitted, df_transformed := Some d\<rparr>))))
      else if method = ''minmax'' then
        (case select_cols (df tr) CONTINUOUS_FEATURES of Inl e \<Rightarrow> (Inl e, tr1)
         | Inr cs \<Rightarrow>
             (case check_array (df tr) cs of Inl e \<Rightarrow> (Inl e, tr1)
              | Inr X \<Rightarrow>
                  (let fitted = map minmax_fit X;
                       d = assign_features (df tr) (map2 minmax_transform fitted X)
                   in log_normalization now method (scaling_params ''min'' ''max'' fitted) d
                        (tr1\<lparr>df_transformed := Some d\<rparr>))))
      else if method = ''robust'' then
        (case select_cols (df tr) CONTINUOUS_FEATURES of Inl e \<Rightarrow> (Inl e, tr1)
         | Inr cs \<Rightarrow>
             (case check_array (df tr) cs of Inl e \<Rightarrow> (Inl e, tr1)
              | Inr X \<Rightarrow>
                  (let fitted = map robust_fit X;
                       d = assign_features (df tr) (map2 robust_transform fitted X)
                   in log_normalization now method (scaling_params ''center'' ''scale'' fitted) d
                        (tr1\<lparr>df_transformed := Some d\<rparr>))))
      else (Inl (UnboundLocalError ''scaling_params''), tr1))"

subsection \<open>compute_derived_features\<close>

text \<open>Element-wise arithmetic of two series of one frame.\<close>

definition series_op ::
  "(real \<Rightarrow> real \<Rightarrow> real) \<Rightarrow> real option list \<Rightarrow> real option list \<Rightarrow> real option list" where
  "series_op f xs ys = map2 (nan_op f) xs ys"

definition scalar_op ::
  "(real \<Rightarrow> real \<Rightarrow> real) \<Rightarrow> real option list \<Rightarrow> real \<Rightarrow> real option list" where
  "scalar_op f xs k = map (\<lambda>x. nan_op f x (Some k)) xs"

text \<open>The dtype of a difference: integers stay integers, anything else is a float.\<close>

definition sub_dtype :: "string \<Rightarrow> string \<Rightarrow> string" where
  "sub_dtype a b = (if a = ''int64'' \<and> b = ''int64'' then ''int64'' else ''float64'')"

text \<open>
  \<open>pd.cut(series, bins, labels)\<close> with its defaults \<open>right=True\<close> and
  \<open>include_lowest=False\<close>: the i-th label is given to the values \<open>x\<close> with
  \<open>bins[i] < x \<le> bins[i+1]\<close>; a value in no interval, and a missing value, get the
  missing value. An edge is a number or \<open>float('inf')\<close>.
\<close>

datatype edge = Fin real | PInf

fun edge_less :: "edge \<Rightarrow> real \<Rightarrow> bool" where
  "edge_less (Fin b) x = (b < x)"
| "edge_less PInf x = False"

fun le_edge :: "real \<Rightarrow> edge \<Rightarrow> bool" where
  "le_edge x (Fin b) = (x \<le> b)"
| "le_edge x PInf = True"

fun cut_value :: "edge list \<Rightarrow> string list \<Rightarrow> real \<Rightarrow> cell" where
  "cut_value (lo # hi # bins) (l # labels) x =
     (if edge_less lo x \<and> le_edge x hi then Txt l else cut_value (hi # bins) labels x)"
| "cut_value bins labels x = NaN"

fun cut_cell :: "edge list \<Rightarrow> string list \<Rightarrow> real option \<Rightarrow> cell" where
  "cut_cell bins labels None = NaN"
| "cut_cell bins labels (Some x) = cut_value bins labels x"

definition pd_cut :: "real option list \<Rightarrow> edge list \<Rightarrow> string list \<Rightarrow> column" where
  "pd_cut xs bins labels = \<lparr>dtype = ''category'', cells = map (cut_cell bins labels) xs\<rparr>"

text \<open>The wear category of one value of the \<open>Tool wear [min]\<close> column.\<close>

definition tool_wear_category :: "real \<Rightarrow> cell" where
  "tool_wear_category w = cut_value [Fin 0, Fin 100, Fin 200, PInf] [''Low'', ''Medium'', ''High''] w"

text \<open>The three right-hand sides, each read from \<open>self.df\<close>.\<close>

definition temp_difference :: "dataframe \<Rightarrow> error + column" where
  "temp_difference d =
     (case getitem d ''Process temperature [K]'' of Inl e \<Rightarrow> Inl e
      | Inr p \<Rightarrow>
     (case getitem d ''Air temperature [K]'' of Inl e \<Rightarrow> Inl e
      | Inr a \<Rightarrow>
     (case numeric (cells p) of Inl e \<Rightarrow> Inl e
      | Inr ps \<Rightarrow>
     (case numeric (cells a) of Inl e \<Rightarrow> Inl e
      | Inr as \<Rightarrow>
          Inr \<lparr>dtype = sub_dtype (dtype p) (dtype a),
               cells = map to_cell (series_op (-) ps as)\<rparr>))))"

definition power_estimate :: "dataframe \<Rightarrow> error + column" where
  "power_estimate d =
     (case getitem d ''Torque [Nm]'' of Inl e \<Rightarrow> Inl e
      | Inr t \<Rightarrow>
     (case getitem d ''Rotational speed [rpm]'' of Inl e \<Rightarrow> Inl e
      | Inr r \<Rightarrow>
     (case numeric (cells t) of Inl e \<Rightarrow> Inl e
      | Inr ts \<Rightarrow>
     (case numeric (cells r) of Inl e \<Rightarrow> Inl e
      | Inr rs \<Rightarrow>
          Inr \<lparr>dtype = ''float64'',
               cells = map to_cell
                 (scalar_op (/) (scalar_op (*) (scalar_op (*) (series_op (*) ts rs) 2) pi) 60)\<rparr>))))"

definition wear_category :: "dataframe \<Rightarrow> error + column" where
  "wear_category d =
     (case getitem d ''Tool wear [min]'' of Inl e \<Rightarrow> Inl e
      | Inr w \<Rightarrow>
     (case numeric (cells w) of Inl e \<Rightarrow> Inl e
      | Inr ws \<Rightarrow> Inr (pd_cut ws [Fin 0, Fin 100, Fin 200, PInf] [''Low'', ''Medium'', ''High''])))"

text \<open>Each assignment changes \<open>df_transformed\<close> at once: an exception in a later
  statement leaves the earlier derived columns in place.\<close>

definition compute_derived_features ::
  "string \<Rightarrow> transformer \<Rightarrow> (error + dataframe) \<times> transformer" where
  "compute_derived_features now tr =
     (let d0 = (case df_transformed tr of None \<Rightarrow> df tr | Some t \<Rightarrow> t);
          tr0 = tr\<lparr>df_transformed := Some d0\<rparr>
      in (case temp_difference (df tr) of Inl e \<Rightarrow> (Inl e, tr0)
          | Inr c1 \<Rightarrow>
         (let d1 = setitem d0 ''Temp_Difference'' c1;
              tr1 = tr0\<lparr>df_transformed := Some d1\<rparr>
          in (case power_estimate (df tr) of Inl e \<Rightarrow> (Inl e, tr1)
              | Inr c2 \<Rightarrow>
             (let d2 = setitem d1 ''Power_Estimate'' c2;
                  tr2 = tr1\<lparr>df_transformed := Some d2\<rparr>
              in (case wear_category (df tr) of Inl e \<Rightarrow> (Inl e, tr2)
                  | Inr c3 \<Rightarrow>
                 (let d3 = setitem d2 ''Tool_Wear_Category'' c3;
                      derived_features =
                        [''Temp_Difference'', ''Power_Estimate'', ''Tool_Wear_Category'']
                  in (Inr d3,
                      tr2\<lparr>df_transformed := Some d3,
                          transformation_log := transformation_log tr @
                            [\<lparr>timestamp = now, operation = ''feature_engineering'',
                              details = FeatureDetails derived_features
                                ''Added temperature difference, power estimate, and tool wear category''\<rparr>]\<rparr>))))))))"

section \<open>hashlib\<close>

text \<open>
  The exporter hashes files with \<open>hashlib.sha256\<close> (or \<open>hashlib.md5\<close> for any other
  algorithm name). Both digests are written out here as functions of the whole message
  (FIPS 180-4 and RFC 1321). A hash object holds the bytes it has been fed so far:
  \<open>update\<close> adds bytes at the end, \<open>hexdigest\<close> is the digest of all of them.
\<close>

type_synonym byte = "8 word"

definition blocks :: "nat \<Rightarrow> 'a list \<Rightarrow> 'a list list" where
  "blocks n xs = map (\<lambda>i. take n (drop (i * n) xs)) [0..<length xs div n]"

definition be_word32 :: "byte list \<Rightarrow> 32 word" where
  "be_word32 bs = foldl (\<lambda>w b. push_bit 8 w OR ucast b) 0 bs"

definition le_word32 :: "byte list \<Rightarrow> 32 word" where
  "le_word32 bs = foldr (\<lambda>b w. push_bit 8 w OR ucast b) bs 0"

definition be_bytes32 :: "32 word \<Rightarrow> byte list" where
  "be_bytes32 w = map (\<lambda>i. ucast (drop_bit (8 * i) w)) [3, 2, 1, 0]"

definition le_bytes32 :: "32 word \<Rightarrow> byte list" where
  "le_bytes32 w = map (\<lambda>i. ucast (drop_bit (8 * i) w)) [0, 1, 2, 3]"

definition bit_length :: "byte list \<Rightarrow> 64 word" where
  "bit_length msg = word_of_nat (8 * length msg)"

definition be_bytes64 :: "64 word \<Rightarrow> byte list" where
  "be_bytes64 w = map (\<lambda>i. ucast (drop_bit (8 * i) w)) [7, 6, 5, 4, 3, 2, 1, 0]"

definition le_bytes64 :: "64 word \<Rightarrow> byte list" where
  "le_bytes64 w = map (\<lambda>i. ucast (drop_bit (8 * i) w)) [0, 1, 2, 3, 4, 5, 6, 7]"

text \<open>The message, the byte 0x80, zero bytes up to 56 modulo 64, and the bit length.\<close>

definition pad_zeros :: "byte list \<Rightarrow> byte list" where
  "pad_zeros msg = msg @ [0x80] @ replicate ((119 - length msg mod 64) mod 64) 0"

definition hex_byte :: "byte \<Rightarrow> string" where
  "hex_byte b = [''0123456789abcdef'' ! (unat b div 16), ''0123456789abcdef'' ! (unat b mod 16)]"

definition hex :: "byte list \<Rightarrow> string" where
  "hex bs = concat (map hex_byte bs)"

subsection \<open>SHA-256\<close>

definition K256 :: "32 word list" where
  "K256 =
     [0x428a2f98, 0x71374491, 0xb5c0fbcf, 0xe9b5dba5, 0x3956c25b, 0x59f111f1,
      0x923f82a4, 0xab1c5ed5, 0xd807aa98, 0x12835b01, 0x243185be, 0x550c7dc3,
      0x72be5d74, 0x80deb1fe, 0x9bdc06a7, 0xc19bf174, 0xe49b69c1, 0xefbe4786,
      0x0fc19dc6, 0x240ca1cc, 0x2de92c6f, 0x4a7484aa, 0x5cb0a9dc, 0x76f988da,
      0x983e5152, 0xa831c66d, 0xb00327c8, 0xbf597fc7, 0xc6e00bf3, 0xd5a79147,
      0x06ca6351, 0x14292967, 0x27b70a85, 0x2e1b2138, 0x4d2c6dfc, 0x53380d13,
      0x650a7354, 0x766a0abb, 0x81c2c92e, 0x92722c85, 0xa2bfe8a1, 0xa81a664b,
      0xc24b8b70, 0xc76c51a3, 0xd192e819, 0xd6990624, 0xf40e3585, 0x106aa070,
      0x19a4c116, 0x1e376c08, 0x2748774c, 0x34b0bcb5, 0x391c0cb3, 0x4ed8aa4a,
      0x5b9cca4f, 0x682e6ff3, 0x748f82ee, 0x78a5636f, 0x84c87814, 0x8cc70208,
      0x90befffa, 0xa4506ceb, 0xbef9a3f7, 0xc67178f2]"

definition H256 :: "32 word list" where
  "H256 =
     [0x6a09e667, 0xbb67ae85, 0x3c6ef372, 0xa54ff53a, 0x510e527f, 0x9b05688c,
      0x1f83d9ab, 0x5be0cd19]"

definition Ch :: "32 word \<Rightarrow> 32 word \<Rightarrow> 32 word \<Rightarrow> 32 word" where
  "Ch x y z = (x AND y) XOR (NOT x AND z)"

definition Maj :: "32 word \<Rightarrow> 32 word \<Rightarrow> 32 word \<Rightarrow> 32 word" where
  "Maj x y z = (x AND y) XOR (x AND z) XOR (y AND z)"

definition Sigma0 :: "32 word \<Rightarrow> 32 word" where
  "Sigma0 x = word_rotr 2 x XOR word_rotr 13 x XOR word_rotr 22 x"

definition Sigma1 :: "32 word \<Rightarrow> 32 word" where
  "Sigma1 x = word_rotr 6 x XOR word_rotr 11 x XOR word_rotr 25 x"

definition sigma0 :: "32 word \<Rightarrow> 32 word" where
  "sigma0 x = word_rotr 7 x XOR word_rotr 18 x XOR drop_bit 3 x"

definition sigma1 :: "32 word \<Rightarrow> 32 word" where
  "sigma1 x = word_rotr 17 x XOR word_rotr 19 x XOR drop_bit 10 x"

text \<open>The message schedule: the 16 words of the block, extended word by word.\<close>

fun schedule :: "nat \<Rightarrow> 32 word list \<Rightarrow> 32 word list" where
  "schedule 0 w = w"
| "schedule (Suc n) w =
     schedule n
       (w @ [sigma1 (w ! (length w - 2)) + w ! (length w - 7) +
             sigma0 (w ! (length w - 15)) + w ! (length w - 16)])"

fun sha256_round :: "32 word list \<Rightarrow> 32 word \<times> 32 word \<Rightarrow> 32 word list" where
  "sha256_round [a, b, c, d, e, f, g, h] (k, w) =
     (let T1 = h + Sigma1 e + Ch e f g + k + w;
          T2 = Sigma0 a + Maj a b c
      in [T1 + T2, a, b, c, d + T1, e, f, g])"
| "sha256_round st kw = st"

definition sha256_compress :: "32 word list \<Rightarrow> byte list \<Rightarrow> 32 word list" where
  "sha256_compress H block =
     (let W = schedule 48 (map be_word32 (blocks 4 block))
      in map2 (+) H (foldl sha256_round H (zip K256 W)))"

definition sha256 :: "byte list \<Rightarrow> byte list" where
  "sha256 msg =
     concat (map be_bytes32
       (foldl sha256_compress H256 (blocks 64 (pad_zeros msg @ be_bytes64 (bit_length msg)))))"

subsection \<open>MD5\<close>

definition T_md5 :: "32 word list" where
  "T_md5 =
     [0xd76aa478, 0xe8c7b756, 0x242070db, 0xc1bdceee, 0xf57c0faf, 0x4787c62a,
      0xa8304613, 0xfd469501, 0x698098d8, 0x8b44f7af, 0xffff5bb1, 0x895cd7be,
      0x6b901122, 0xfd987193, 0xa679438e, 0x49b40821, 0xf61e2562, 0xc040b340,
      0x265e5a51, 0xe9b6c7aa, 0xd62f105d, 0x02441453, 0xd8a1e681, 0xe7d3fbc8,
      0x21e1cde6, 0xc33707d6, 0xf4d50d87, 0x455a14ed, 0xa9e3e905, 0xfcefa3f8,
      0x676f02d9, 0x8d2a4c8a, 0xfffa3942, 0x8771f681, 0x6d9d6122, 0xfde5380c,
      0xa4beea44, 0x4bdecfa9, 0xf6bb4b60, 0xbebfbc70, 0x289b7ec6, 0xeaa127fa,
      0xd4ef3085, 0x04881d05, 0xd9d4d039, 0xe6db99e5, 0x1fa27cf8, 0xc4ac5665,
      0xf4292244, 0x432aff97, 0xab9423a7, 0xfc93a039, 0x655b59c3, 0x8f0ccc92,
      0xffeff47d, 0x85845dd1, 0x6fa87e4f, 0xfe2ce6e0, 0xa3014314, 0x4e0811a1,
      0xf7537e82, 0xbd3af235, 0x2ad7d2bb, 0xeb86d391]"

definition S_md5 :: "nat list" where
  "S_md5 =
     concat (replicate 4 [7, 12, 17, 22]) @ concat (replicate 4 [5, 9, 14, 20]) @
     concat (replicate 4 [4, 11, 16, 23]) @ concat (replicate 4 [6, 10, 15, 21])"

definition A_md5 :: "32 word list" where
  "A_md5 = [0x67452301, 0xefcdab89, 0x98badcfe, 0x10325476]"

fun md5_round :: "32 word list \<Rightarrow> 32 word list \<Rightarrow> nat \<Rightarrow> 32 word list" where
  "md5_round M [A, B, C, D] i =
     (let F = (if i < 16 then (B AND C) OR (NOT B AND D)
               else if i < 32 then (D AND B) OR (NOT D AND C)
               else if i < 48 then B XOR C XOR D
               else C XOR (B OR NOT D));
          g = (if i < 16 then i
               else if i < 32 then (5 * i + 1) mod 16
               else if i < 48 then (3 * i + 5) mod 16
               else (7 * i) mod 16)
      in [D, B + word_rotl (S_md5 ! i) (F + A + T_md5 ! i + M ! g), B, C])"
| "md5_round M st i = st"

definition md5_compress :: "32 word list \<Rightarrow> byte list \<Rightarrow> 32 word list" where
  "md5_compress st block =
     map2 (+) st (foldl (md5_round (map le_word32 (blocks 4 block))) st [0..<64])"

definition md5 :: "byte list \<Rightarrow> byte list" where
  "md5 msg =
     concat (map le_bytes32
       (foldl md5_compress A_md5 (blocks 64 (pad_zeros msg @ le_bytes64 (bit_length msg)))))"

subsection \<open>Hash objects\<close>

datatype hash_algorithm = SHA256 | MD5

record hash_object =
  hash_name :: hash_algorithm
  fed :: "byte list"

definition hashlib_sha256 :: hash_object where
  "hashlib_sha256 = \<lparr>hash_name = SHA256, fed = []\<rparr>"

definition hashlib_md5 :: hash_object where
  "hashlib_md5 = \<lparr>hash_name = MD5, fed = []\<rparr>"

definition update :: "hash_object \<Rightarrow> byte list \<Rightarrow> hash_object" where
  "update h chunk = h\<lparr>fed := fed h @ chunk\<rparr>"

definition hexdigest :: "hash_object \<Rightarrow> string" where
  "hexdigest h = (case hash_name h of SHA256 \<Rightarrow> hex (sha256 (fed h)) | MD5 \<Rightarrow> hex (md5 (fed h)))"

section \<open>DataExporter\<close>

text \<open>
  The file system maps a path to the bytes of the file there. The serialisers are
  pandas's; what they write is a parameter of the model. \<open>to_parquet\<close> gives nothing
  when no parquet engine is installed (ImportError).
\<close>

type_synonym filesystem = "string \<rightharpoonup> byte list"

record pandas_io =
  to_csv :: "dataframe \<Rightarrow> bool \<Rightarrow> byte list"
  to_json :: "dataframe \<Rightarrow> string \<Rightarrow> byte list"
  to_parquet :: "dataframe \<Rightarrow> string \<Rightarrow> byte list option"

record export_entry =
  e_timestamp :: string
  format :: string
  filename :: string
  path :: string
  orient :: "string option"
  compression :: "string option"
  rows :: nat
  n_columns :: "nat option"
  size_mb :: real
  checksum_sha256 :: string

record exporter =
  exp_df :: dataframe
  output_dir :: string
  export_log :: "export_entry list"

definition init_exporter :: "dataframe \<Rightarrow> string \<Rightarrow> exporter" where
  "init_exporter d dir = \<lparr>exp_df = d, output_dir = dir, export_log = []\<rparr>"

text \<open>\<open>output_dir / filename\<close>: an absolute file name stands for itself.\<close>

definition path_join :: "string \<Rightarrow> string \<Rightarrow> string" where
  "path_join dir name =
     (case name of c # cs \<Rightarrow> if c = CHR ''/'' then name else dir @ ''/'' @ name
      | [] \<Rightarrow> dir)"

text \<open>\<open>for chunk in iter(lambda: f.read(4096), b'')\<close>: \<open>rest\<close> is what the file object
  has not read yet; the loop ends at the first empty read.\<close>

function read_chunks :: "hash_object \<Rightarrow> byte list \<Rightarrow> hash_object" where
  "read_chunks hash_func rest =
     (let chunk = take 4096 rest
      in if chunk = [] then hash_func
         else read_chunks (update hash_func chunk) (drop 4096 rest))"
  by pat_completeness auto
termination
  by (relation "measure (\<lambda>(h, rest). length rest)") auto

declare read_chunks.simps [simp del]

definition calculate_checksum :: "filesystem \<Rightarrow> string \<Rightarrow> string \<Rightarrow> error + string" where
  "calculate_checksum fs file_path algorithm =
     (let hash_func = (if algorithm = ''sha256'' then hashlib_sha256 else hashlib_md5)
      in case fs file_path of
           None \<Rightarrow> Inl (FileNotFoundError file_path)
         | Some content \<Rightarrow> Inr (hexdigest (read_chunks hash_func content)))"

text \<open>Python's \<open>round(x, 2)\<close>: to the nearest hundredth, a tie to the even one.\<close>

definition round_half_even :: "real \<Rightarrow> int" where
  "round_half_even x =
     (let f = \<lfloor>x\<rfloor>; r = x - of_int f
      in if r < 1 / 2 then f else if r > 1 / 2 then f + 1
         else if even f then f else f + 1)"

definition round2 :: "real \<Rightarrow> real" where
  "round2 x = of_int (round_half_even (x * 100)) / 100"

definition st_size :: "filesystem \<Rightarrow> string \<Rightarrow> error + nat" where
  "st_size fs p =
     (case fs p of None \<Rightarrow> Inl (FileNotFoundError p) | Some content \<Rightarrow> Inr (length content))"

text \<open>The three exports write the file, hash it by reading it back, and append one
  entry. An exception leaves the file system and the exporter as they were when it was
  raised.\<close>

definition export_csv ::
  "pandas_io \<Rightarrow> string \<Rightarrow> string \<Rightarrow> bool \<Rightarrow> filesystem \<times> exporter
     \<Rightarrow> (error + string) \<times> filesystem \<times> exporter" where
  "export_csv io now name include_index w =
     (let fs = fst w; ex = snd w;
          output_path = path_join (output_dir ex) name;
          fs1 = fs(output_path \<mapsto> to_csv io (exp_df ex) include_index)
      in (case calculate_checksum fs1 output_path ''sha256'' of Inl e \<Rightarrow> (Inl e, fs1, ex)
          | Inr checksum \<Rightarrow>
         (case st_size fs1 output_path of Inl e \<Rightarrow> (Inl e, fs1, ex)
          | Inr nbytes \<Rightarrow>
          (Inr output_path, fs1,
           ex\<lparr>export_log := export_log ex @
                [\<lparr>e_timestamp = now, format = ''CSV'', filename = name, path = output_path,
                  orient = None, compression = None,
                  rows = len_df (exp_df ex), n_columns = Some (length (columns (exp_df ex))),
                  size_mb = round2 (real nbytes / 1024\<^sup>2), checksum_sha256 = checksum\<rparr>]\<rparr>))))"

definition export_json ::
  "pandas_io \<Rightarrow> string \<Rightarrow> string \<Rightarrow> string \<Rightarrow> filesystem \<times> exporter
     \<Rightarrow> (error + string) \<times> filesystem \<times> exporter" where
  "export_json io now name orient' w =
     (let fs = fst w; ex = snd w;
          output_path = path_join (output_dir ex) name;
          fs1 = fs(output_path \<mapsto> to_json io (exp_df ex) orient')
      in (case calculate_checksum fs1 output_path ''sha256'' of Inl e \<Rightarrow> (Inl e, fs1, ex)
          | Inr checksum \<Rightarrow>
         (case st_size fs1 output_path of Inl e \<Rightarrow> (Inl e, fs1, ex)
          | Inr nbytes \<Rightarrow>
          (Inr output_path, fs1,
           ex\<lparr>export_log := export_log ex @
                [\<lparr>e_timestamp = now, format = ''JSON'', filename = name, path = output_path,
                  orient = Some orient', compression = None,
                  rows = len_df (exp_df ex), n_columns = None,
                  size_mb = round2 (real nbytes / 1024\<^sup>2), checksum_sha256 = checksum\<rparr>]\<rparr>))))"

text \<open>Without a parquet engine the export is skipped: nothing is written, nothing is
  logged, and the result is \<open>None\<close>.\<close>

definition export_parquet ::
  "pandas_io \<Rightarrow> string \<Rightarrow> string \<Rightarrow> string \<Rightarrow> filesystem \<times> exporter
     \<Rightarrow> (error + string option) \<times> filesystem \<times> exporter" where
  "export_parquet io now name compression' w =
     (let fs = fst w; ex = snd w;
          output_path = path_join (output_dir ex) name
      in (case to_parquet io (exp_df ex) compression' of None \<Rightarrow> (Inr None, fs, ex)
          | Some content \<Rightarrow>
         (let fs1 = fs(output_path \<mapsto> content)
          in (case calculate_checksum fs1 output_path ''sha256'' of Inl e \<Rightarrow> (Inl e, fs1, ex)
              | Inr checksum \<Rightarrow>
             (case st_size fs1 output_path of Inl e \<Rightarrow> (Inl e, fs1, ex)
              | Inr nbytes \<Rightarrow>
                (Inr (Some output_path), fs1,
                 ex\<lparr>export_log := export_log ex @
                   [\<lparr>e_timestamp = now, format = ''Parquet'', filename = name,
                     path = output_path, orient = None, compression = Some compression',
                     rows = len_df (exp_df ex), n_columns = None,
                     size_mb = round2 (real nbytes / 1024\<^sup>2),
                     checksum_sha256 = checksum\<rparr>]\<rparr>))))))"

section \<open>DataLoader\<close>

definition EXPECTED_COLUMNS :: "string list" where
  "EXPECTED_COLUMNS =
     [''UDI'', ''Product ID'', ''Type'', ''Air temperature [K]'',
      ''Process temperature [K]'', ''Rotational speed [rpm]'',
      ''Torque [Nm]'', ''Tool wear [min]'', ''Machine failure'',
      ''TWF'', ''HDF'', ''PWF'', ''OSF'', ''RNF'']"

definition EXPECTED_DTYPES :: "(string \<times> string) list" where
  "EXPECTED_DTYPES =
     [(''UDI'', ''int64''), (''Product ID'', ''object''), (''Type'', ''object''),
      (''Air temperature [K]'', ''float64''), (''Process temperature [K]'', ''float64''),
      (''Rotational speed [rpm]'', ''int64''), (''Torque [Nm]'', ''float64''),
      (''Tool wear [min]'', ''int64''), (''Machine failure'', ''int64''),
      (''TWF'', ''int64''), (''HDF'', ''int64''), (''PWF'', ''int64''),
      (''OSF'', ''int64''), (''RNF'', ''int64'')]"

definition EXPECTED_ROWS :: nat where
  "EXPECTED_ROWS = 10000"

text \<open>What a check reports besides its status.\<close>

datatype check_info =
    RowCount nat nat
  | ColumnSet nat nat "string list" "string list"
  | DataTypes "(string \<times> string \<times> string) list"
  | MissingValues nat
  | Duplicates nat

record check_result =
  status :: string
  info :: check_info

text \<open>The results dictionary, in insertion order.\<close>

type_synonym validation = "(string \<times> check_result) list"

record loader =
  data_path :: string
  ld_df :: "dataframe option"
  validation_results :: validation

text \<open>\<open>df.isnull().sum().sum()\<close>: the missing cells of the whole frame.\<close>

definition count_null :: "dataframe \<Rightarrow> nat" where
  "count_null d = sum_list (map (\<lambda>(name, c). length (filter (\<lambda>x. x = NaN) (cells c))) (cols d))"

text \<open>\<open>df.duplicated().sum()\<close>: the rows equal to an earlier row.\<close>

definition cell_at :: "column \<Rightarrow> nat \<Rightarrow> cell" where
  "cell_at c i = (if i < length (cells c) then cells c ! i else NaN)"

definition row_values :: "dataframe \<Rightarrow> cell list list" where
  "row_values d = map (\<lambda>i. map (\<lambda>(name, c). cell_at c i) (cols d)) [0..<len_df d]"

fun count_duplicated :: "'a list \<Rightarrow> 'a list \<Rightarrow> nat" where
  "count_duplicated seen [] = 0"
| "count_duplicated seen (r # rs) =
     (if r \<in> set seen then Suc (count_duplicated seen rs)
      else count_duplicated (r # seen) rs)"

text \<open>The type check walks the expected dtypes and skips the columns that are absent.\<close>

fun dtype_mismatches :: "dataframe \<Rightarrow> (string \<times> string) list \<Rightarrow> (string \<times> string \<times> string) list" where
  "dtype_mismatches d [] = []"
| "dtype_mismatches d ((col, expected_dtype) # rest) =
     (case map_of (cols d) col of
        None \<Rightarrow> dtype_mismatches d rest
      | Some c \<Rightarrow>
          if dtype c \<noteq> expected_dtype
          then (col, expected_dtype, dtype c) # dtype_mismatches d rest
          else dtype_mismatches d rest)"

text \<open>The two set differences are listed here in the order of the list they are taken
  from; Python leaves the order of a set open.\<close>

definition results_of :: "dataframe \<Rightarrow> validation" where
  "results_of d =
     (let missing_cols = remdups (filter (\<lambda>c. c \<notin> set (columns d)) EXPECTED_COLUMNS);
          extra_cols = remdups (filter (\<lambda>c. c \<notin> set EXPECTED_COLUMNS) (columns d));
          mismatches = dtype_mismatches d EXPECTED_DTYPES;
          missing_values = count_null d;
          duplicates = count_duplicated [] (row_values d)
      in [(''row_count'',
             \<lparr>status = (if len_df d = EXPECTED_ROWS then ''PASS'' else ''WARN''),
              info = RowCount EXPECTED_ROWS (len_df d)\<rparr>),
          (''columns'',
             \<lparr>status = (if missing_cols = [] then ''PASS'' else ''FAIL''),
              info = ColumnSet (length EXPECTED_COLUMNS) (length (columns d))
                       missing_cols extra_cols\<rparr>),
          (''data_types'',
             \<lparr>status = (if mismatches = [] then ''PASS'' else ''WARN''),
              info = DataTypes mismatches\<rparr>),
          (''missing_values'',
             \<lparr>status = (if missing_values = 0 then ''PASS'' else ''WARN''),
              info = MissingValues missing_values\<rparr>),
          (''duplicates'',
             \<lparr>status = (if duplicates = 0 then ''PASS'' else ''WARN''),
              info = Duplicates duplicates\<rparr>)])"

definition validate_structure :: "loader \<Rightarrow> error + validation \<times> loader" where
  "validate_structure ld =
     (case ld_df ld of
        None \<Rightarrow> Inl (ValueError ''Dataset not loaded. Call load() first.'')
      | Some d \<Rightarrow> Inr (results_of d, ld\<lparr>validation_results := results_of d\<rparr>))"

text \<open>The gate of the orchestrator (\<open>main.py\<close>) after validation: the run goes on when
  every status is PASS or WARN, and ends with exit code 1 otherwise.\<close>

definition all_passed :: "validation \<Rightarrow> bool" where
  "all_passed results =
     list_all (\<lambda>(k, v). status v \<in> set [''PASS'', ''WARN'']) results"

datatype gate = Continue | Exit nat

definition validation_gate :: "validation \<Rightarrow> gate" where
  "validation_gate results =
     (if \<not> all_passed results then Exit 1 else Continue)"

section \<open>ProvenanceLogger\<close>

text \<open>The values a dictionary handed to the logger can hold.\<close>

datatype json =
    JNull | JBool bool | JNum real | JStr string
  | JList "json list" | JDict "(string \<times> json) list"

record step_record =
  step_name :: string
  step_description :: string
  step_timestamp :: string
  step_status :: string
  step_parameters :: "(string \<times> json) list"

record transformation_record =
  tr_type :: string
  tr_timestamp :: string
  tr_details :: "(string \<times> json) list"

record quality_record =
  check_name :: string
  qc_timestamp :: string
  passed :: bool
  qc_results :: "(string \<times> json) list"

record curator_info =
  curator_name :: string
  institution :: string
  contact :: "string option"
  added_at :: string

record note_record =
  note_timestamp :: string
  category :: string
  note_text :: string

text \<open>The provenance record. The keys \<open>curator\<close> and \<open>notes\<close> are absent until the
  first call that sets them.\<close>

record provenance_record =
  project_name :: string
  creation_timestamp :: string
  dataset_source :: "(string \<times> json) list"
  curation_workflow :: "step_record list"
  system_environment :: "(string \<times> json) list"
  data_transformations :: "transformation_record list"
  quality_checks :: "quality_record list"
  exports :: "(string \<times> json) list list"
  curator :: "curator_info option"
  prov_notes :: "note_record list option"

definition init_provenance :: "string \<Rightarrow> string \<Rightarrow> provenance_record" where
  "init_provenance now name =
     \<lparr>project_name = name, creation_timestamp = now, dataset_source = [],
      curation_workflow = [], system_environment = [], data_transformations = [],
      quality_checks = [], exports = [], curator = None, prov_notes = None\<rparr>"

text \<open>\<open>{**source_info, 'logged_at': now}\<close> is assigned to the \<open>dataset_source\<close> key.\<close>

definition log_dataset_source ::
  "string \<Rightarrow> (string \<times> json) list \<Rightarrow> provenance_record \<Rightarrow> provenance_record" where
  "log_dataset_source now source_info p =
     p\<lparr>dataset_source := dict_set ''logged_at'' (JStr now) source_info\<rparr>"

text \<open>\<open>parameters or {}\<close>: no dictionary counts as the empty one.\<close>

definition log_workflow_step ::
  "string \<Rightarrow> string \<Rightarrow> string \<Rightarrow> (string \<times> json) list option \<Rightarrow> string
     \<Rightarrow> provenance_record \<Rightarrow> provenance_record" where
  "log_workflow_step now name description parameters status' p =
     p\<lparr>curation_workflow := curation_workflow p @
         [\<lparr>step_name = name, step_description = description, step_timestamp = now,
           step_status = status',
           step_parameters = (case parameters of None \<Rightarrow> [] | Some ps \<Rightarrow> ps)\<rparr>]\<rparr>"

definition log_transformation ::
  "string \<Rightarrow> string \<Rightarrow> (string \<times> json) list \<Rightarrow> provenance_record \<Rightarrow> provenance_record" where
  "log_transformation now transformation_type details' p =
     p\<lparr>data_transformations := data_transformations p @
         [\<lparr>tr_type = transformation_type, tr_timestamp = now, tr_details = details'\<rparr>]\<rparr>"

definition log_quality_check ::
  "string \<Rightarrow> string \<Rightarrow> (string \<times> json) list \<Rightarrow> bool \<Rightarrow> provenance_record \<Rightarrow> provenance_record" where
  "log_quality_check now name results passed' p =
     p\<lparr>quality_checks := quality_checks p @
         [\<lparr>check_name = name, qc_timestamp = now, passed = passed', qc_results = results\<rparr>]\<rparr>"

definition log_export ::
  "string \<Rightarrow> (string \<times> json) list \<Rightarrow> provenance_record \<Rightarrow> provenance_record" where
  "log_export now export_info p =
     p\<lparr>exports := exports p @ [dict_set ''logged_at'' (JStr now) export_info]\<rparr>"

text \<open>The environment the interpreter reports (versions, platform) is an argument.\<close>

definition capture_system_environment ::
  "string \<Rightarrow> (string \<times> json) list \<Rightarrow> provenance_record \<Rightarrow> provenance_record" where
  "capture_system_environment now environment p =
     p\<lparr>system_environment := (''captured_at'', JStr now) # environment\<rparr>"

definition add_curator_info ::
  "string \<Rightarrow> string \<Rightarrow> string \<Rightarrow> string option \<Rightarrow> provenance_record \<Rightarrow> provenance_record" where
  "add_curator_info now name institution' contact' p =
     p\<lparr>curator := Some \<lparr>curator_name = name, institution = institution',
                          contact = contact', added_at = now\<rparr>\<rparr>"

definition add_notes ::
  "string \<Rightarrow> string \<Rightarrow> string \<Rightarrow> provenance_record \<Rightarrow> provenance_record" where
  "add_notes now txt category' p =
     p\<lparr>prov_notes := Some ((case prov_notes p of None \<Rightarrow> [] | Some ns \<Rightarrow> ns) @
                      [\<lparr>note_timestamp = now, category = category', note_text = txt\<rparr>])\<rparr>"

text \<open>
  A run is a sequence of recording calls, each with the clock reading at the call. The
  functions below say what such a sequence is expected to leave in the record: one entry
  per list-recording call, in call order, and the last value for each single slot.
\<close>

datatype recording_call =
    LogDatasetSource "(string \<times> json) list"
  | LogWorkflowStep string string "(string \<times> json) list option" string
  | LogTransformation string "(string \<times> json) list"
  | LogQualityCheck string "(string \<times> json) list" bool
  | LogExport "(string \<times> json) list"
  | CaptureSystemEnvironment "(string \<times> json) list"
  | AddCuratorInfo string string "string option"
  | AddNotes string string

fun record_call :: "string \<Rightarrow> recording_call \<Rightarrow> provenance_record \<Rightarrow> provenance_record" where
  "record_call now (LogDatasetSource source_info) p = log_dataset_source now source_info p"
| "record_call now (LogWorkflowStep name description parameters status') p =
     log_workflow_step now name description parameters status' p"
| "record_call now (LogTransformation transformation_type details') p =
     log_transformation now transformation_type details' p"
| "record_call now (LogQualityCheck name results passed') p =
     log_quality_check now name results passed' p"
| "record_call now (LogExport export_info) p = log_export now export_info p"
| "record_call now (CaptureSystemEnvironment environment) p =
     capture_system_environment now environment p"
| "record_call now (AddCuratorInfo name institution' contact') p =
     add_curator_info now name institution' contact' p"
| "record_call now (AddNotes txt category') p = add_notes now txt category' p"

fun run_calls :: "(string \<times> recording_call) list \<Rightarrow> provenance_record \<Rightarrow> provenance_record" where
  "run_calls [] p = p"
| "run_calls ((now, c) # cs) p = run_calls cs (record_call now c p)"

fun steps_logged :: "(string \<times> recording_call) list \<Rightarrow> step_record list" where
  "steps_logged [] = []"
| "steps_logged ((now, LogWorkflowStep name description parameters status') # cs) =
     \<lparr>step_name = name, step_description = description, step_timestamp = now,
      step_status = status',
      step_parameters = (case parameters of None \<Rightarrow> [] | Some ps \<Rightarrow> ps)\<rparr> # steps_logged cs"
| "steps_logged (c # cs) = steps_logged cs"

fun transformations_logged :: "(string \<times> recording_call) list \<Rightarrow> transformation_record list" where
  "transformations_logged [] = []"
| "transformations_logged ((now, LogTransformation transformation_type details') # cs) =
     \<lparr>tr_type = transformation_type, tr_timestamp = now, tr_details = details'\<rparr> #
     transformations_logged cs"
| "transformations_logged (c # cs) = transformations_logged cs"

fun checks_logged :: "(string \<times> recording_call) list \<Rightarrow> quality_record list" where
  "checks_logged [] = []"
| "checks_logged ((now, LogQualityCheck name results passed') # cs) =
     \<lparr>check_name = name, qc_timestamp = now, passed = passed', qc_results = results\<rparr> #
     checks_logged cs"
| "checks_logged (c # cs) = checks_logged cs"

fun exports_logged :: "(string \<times> recording_call) list \<Rightarrow> (string \<times> json) list list" where
  "exports_logged [] = []"
| "exports_logged ((now, LogExport export_info) # cs) =
     dict_set ''logged_at'' (JStr now) export_info # exports_logged cs"
| "exports_logged (c # cs) = exports_logged cs"

fun notes_logged :: "(string \<times> recording_call) list \<Rightarrow> note_record list" where
  "notes_logged [] = []"
| "notes_logged ((now, AddNotes txt category') # cs) =
     \<lparr>note_timestamp = now, category = category', note_text = txt\<rparr> # notes_logged cs"
| "notes_logged (c # cs) = notes_logged cs"

text \<open>The single slots after a run: the value given by the last call that sets the slot,
  or the value before the run when there is no such call.\<close>

fun source_after :: "(string \<times> recording_call) list \<Rightarrow> (string \<times> json) list \<Rightarrow> (string \<times> json) list" where
  "source_after [] s = s"
| "source_after ((now, LogDatasetSource source_info) # cs) s =
     source_after cs (dict_set ''logged_at'' (JStr now) source_info)"
| "source_after (c # cs) s = source_after cs s"

fun curator_after :: "(string \<times> recording_call) list \<Rightarrow> curator_info option \<Rightarrow> curator_info option" where
  "curator_after [] s = s"
| "curator_after ((now, AddCuratorInfo name institution' contact') # cs) s =
     curator_after cs
       (Some \<lparr>curator_name = name, institution = institution', contact = contact',
              added_at = now\<rparr>)"
| "curator_after (c # cs) s = curator_after cs s"

fun environment_after :: "(string \<times> recording_call) list \<Rightarrow> (string \<times> json) list \<Rightarrow> (string \<times> json) list" where
  "environment_after [] s = s"
| "environment_after ((now, CaptureSystemEnvironment environment) # cs) s =
     environment_after cs ((''captured_at'', JStr now) # environment)"
| "environment_after (c # cs) s = environment_after cs s"

section \<open>A small dataset\<close>

text \<open>Five rows of the five continuous features and one text column, used to run the
  operations on concrete input.\<close>

definition example_df :: dataframe where
  "example_df =
     \<lparr>index = [0, 1, 2, 3, 4],
      cols =
        [(''Type'', \<lparr>dtype = ''object'', cells = [Txt ''M'', Txt ''L'', Txt ''L'', Txt ''H'', Txt ''L'']\<rparr>),
         (''Air temperature [K]'',
            \<lparr>dtype = ''float64'', cells = [Num 298.1, Num 298.2, Num 298.1, Num 298.2, Num 298.3]\<rparr>),
         (''Process temperature [K]'',
            \<lparr>dtype = ''float64'', cells = [Num 308.6, Num 308.7, Num 308.5, Num 308.6, Num 308.7]\<rparr>),
         (''Rotational speed [rpm]'',
            \<lparr>dtype = ''int64'', cells = [Num 1500, Num 1408, Num 1498, Num 1433, Num 1460]\<rparr>),
         (''Torque [Nm]'',
            \<lparr>dtype = ''float64'', cells = [Num 42.0, Num 46.3, Num 49.4, Num 39.5, Num 40.0]\<rparr>),
         (''Tool wear [min]'',
            \<lparr>dtype = ''int64'', cells = [Num 0, Num 100, Num 150, Num 200, Num 420]\<rparr>)]\<rparr>"

section \<open>Properties of frames\<close>

lemma map_of_dict_set_same: "map_of (dict_set k v kvs) k = Some v"
  by (induction kvs) auto

lemma map_of_dict_set_other: "k' \<noteq> k \<Longrightarrow> map_of (dict_set k v kvs) k' = map_of kvs k'"
  by (induction kvs) auto

lemma keys_dict_set_mem: "k \<in> fst ` set kvs \<Longrightarrow> map fst (dict_set k v kvs) = map fst kvs"
  by (induction kvs) force+

lemma getitem_setitem_same: "getitem (setitem d name c) name = Inr c"
  by (simp add: getitem_def setitem_def map_of_dict_set_same)

lemma getitem_setitem_other:
  "name' \<noteq> name \<Longrightarrow> getitem (setitem d name c) name' = getitem d name'"
  by (simp add: getitem_def setitem_def map_of_dict_set_other)

lemma columns_setitem_mem:
  "name \<in> set (columns d) \<Longrightarrow> columns (setitem d name c) = columns d"
  by (simp add: columns_def setitem_def keys_dict_set_mem)

section \<open>Properties of the transformer\<close>

text \<open>
  C7. \<open>detect_outliers\<close> never removes or alters data. Whatever the method and the
  threshold, and whether the call returns or raises, the transformer's dataset, its
  transformed dataset and its scaler are what they were before the call. When the call
  raises, the whole state is unchanged; when it returns, the state differs from the old
  one by exactly one record at the end of the transformation log.
\<close>

theorem detect_outliers_frame:
  "df (snd (detect_outliers now method threshold tr)) = df tr \<and>
   df_transformed (snd (detect_outliers now method threshold tr)) = df_transformed tr \<and>
   scaler (snd (detect_outliers now method threshold tr)) = scaler tr \<and>
   snd (detect_outliers now method threshold tr) =
     (case fst (detect_outliers now method threshold tr) of
        Inl e \<Rightarrow> tr
      | Inr outlier_info \<Rightarrow>
          tr\<lparr>transformation_log := transformation_log tr @
               [\<lparr>timestamp = now, operation = ''outlier_detection'',
                 details = OutlierDetails method threshold
                             (map (\<lambda>(k, v). (k, count v)) outlier_info)\<rparr>]\<rparr>)"
  by (simp add: detect_outliers_def split: sum.split)

lemma detect_outliers_log:
  "detect_outliers now method threshold tr = (Inr report, tr') \<Longrightarrow>
   transformation_log tr' = transformation_log tr @
     [\<lparr>timestamp = now, operation = ''outlier_detection'',
       details = OutlierDetails method threshold (map (\<lambda>(k, v). (k, count v)) report)\<rparr>]"
  by (auto simp: detect_outliers_def split: sum.splits)

lemma normalize_features_log:
  "normalize_features now method tr = (Inr d, tr') \<Longrightarrow>
   \<exists>cs X. select_cols (df tr) CONTINUOUS_FEATURES = Inr cs \<and> check_array (df tr) cs = Inr X \<and>
     transformation_log tr' = transformation_log tr @
       [\<lparr>timestamp = now, operation = ''normalization'',
         details = NormalizationDetails method CONTINUOUS_FEATURES
           (if method = ''standard'' then scaling_params ''mean'' ''std'' (map standard_fit X)
            else if method = ''minmax'' then scaling_params ''min'' ''max'' (map minmax_fit X)
            else scaling_params ''center'' ''scale'' (map robust_fit X))\<rparr>]"
  by (auto simp: normalize_features_def log_normalization_def Let_def split: if_splits sum.splits)

lemma compute_derived_features_log:
  "compute_derived_features now tr = (Inr d, tr') \<Longrightarrow>
   transformation_log tr' = transformation_log tr @
     [\<lparr>timestamp = now, operation = ''feature_engineering'',
       details = FeatureDetails [''Temp_Difference'', ''Power_Estimate'', ''Tool_Wear_Category'']
         ''Added temperature difference, power estimate, and tool wear category''\<rparr>]"
  by (auto simp: compute_derived_features_def Let_def split: sum.splits)

lemma normalize_features_fail_log:
  "normalize_features now method tr = (Inl e, tr') \<Longrightarrow> transformation_log tr' = transformation_log tr"
  by (auto simp: normalize_features_def log_normalization_def Let_def split: if_splits sum.splits)

lemma compute_derived_features_fail_log:
  "compute_derived_features now tr = (Inl e, tr') \<Longrightarrow> transformation_log tr' = transformation_log tr"
  by (auto simp: compute_derived_features_def Let_def split: sum.splits)

lemma unsupported_method_result:
  "method \<noteq> ''standard'' \<Longrightarrow> method \<noteq> ''minmax'' \<Longrightarrow> method \<noteq> ''robust'' \<Longrightarrow>
   normalize_features now method tr =
     (Inl (UnboundLocalError ''scaling_params''), tr\<lparr>df_transformed := Some (df tr)\<rparr>)"
  by (simp add: normalize_features_def)

text \<open>
  C3, as the code has it. For every method name outside \<open>standard\<close>, \<open>minmax\<close> and
  \<open>robust\<close>, \<open>normalize_features\<close> raises and returns no dataset; the dataset, the
  scaler and the transformation log are unchanged. The call is not without effect:
  \<open>df_transformed\<close> has been replaced by a copy of the original dataset, which is the
  first statement of every call.
\<close>

theorem normalize_features_unsupported:
  "method \<notin> {''standard'', ''minmax'', ''robust''} \<Longrightarrow>
   (\<exists>e. fst (normalize_features now method tr) = Inl e) \<and>
   snd (normalize_features now method tr) = tr\<lparr>df_transformed := Some (df tr)\<rparr> \<and>
   df (snd (normalize_features now method tr)) = df tr \<and>
   scaler (snd (normalize_features now method tr)) = scaler tr \<and>
   transformation_log (snd (normalize_features now method tr)) = transformation_log tr"
  by (simp add: unsupported_method_result)

theorem normalize_features_unsupported_witness:
  "''l2'' \<notin> {''standard'', ''minmax'', ''robust''} \<and>
   (\<exists>e. fst (normalize_features ''t0'' ''l2'' (init_transformer example_df)) = Inl e) \<and>
   snd (normalize_features ''t0'' ''l2'' (init_transformer example_df)) =
     (init_transformer example_df)\<lparr>df_transformed := Some example_df\<rparr> \<and>
   transformation_log (snd (normalize_features ''t0'' ''l2'' (init_transformer example_df))) = []"
  using normalize_features_unsupported [of "''l2''" "''t0''" "init_transformer example_df"]
  by (simp add: init_transformer_def)

text \<open>
  C3 as stated fails: on a new transformer, the call with the unsupported name \<open>l2\<close>
  changes the state, since \<open>df_transformed\<close> goes from \<open>None\<close> to a copy of the dataset.
\<close>

theorem normalize_features_touches_state:
  "df_transformed (init_transformer example_df) = None \<and>
   df_transformed (snd (normalize_features ''t0'' ''l2'' (init_transformer example_df))) =
     Some example_df \<and>
   snd (normalize_features ''t0'' ''l2'' (init_transformer example_df)) \<noteq>
     init_transformer example_df"
proof -
  have neq: "''l2'' \<noteq> ''standard''" "''l2'' \<noteq> ''minmax''" "''l2'' \<noteq> ''robust''"
    by simp_all
  have "df_transformed (snd (normalize_features ''t0'' ''l2'' (init_transformer example_df))) =
          Some example_df"
    by (simp add: unsupported_method_result [OF neq] init_transformer_def)
  moreover have "df_transformed (init_transformer example_df) = None"
    by (simp add: init_transformer_def)
  ultimately show ?thesis by auto
qed

lemma select_cols_present:
  "select_cols d names = Inr cs \<Longrightarrow> set names \<subseteq> set (columns d)"
proof -
  assume a: "select_cols d names = Inr cs"
  have "filter (\<lambda>n. map_of (cols d) n = None) names = []"
    using a by (simp add: select_cols_def Let_def split: if_splits)
  then have "\<forall>n\<in>set names. map_of (cols d) n \<noteq> None"
    by (simp add: filter_empty_conv)
  then show ?thesis
    by (auto simp: columns_def map_of_eq_None_iff)
qed

lemma assign_loop_columns:
  "set names \<subseteq> set (columns d) \<Longrightarrow>
   columns (foldl (\<lambda>d' (name, xs). setitem d' name \<lparr>dtype = ''float64'', cells = map to_cell xs\<rparr>)
              d (zip names X)) = columns d"
proof (induction names arbitrary: d X)
  case Nil
  then show ?case by simp
next
  case (Cons n ns)
  show ?case
  proof (cases X)
    case Nil
    then show ?thesis by simp
  next
    case (Cons x xs)
    have "columns (setitem d n \<lparr>dtype = ''float64'', cells = map to_cell x\<rparr>) = columns d"
      using Cons.prems by (simp add: columns_setitem_mem)
    then show ?thesis
      using Cons Cons.prems Cons.IH [of "setitem d n \<lparr>dtype = ''float64'', cells = map to_cell x\<rparr>" xs]
      by simp
  qed
qed

lemma assign_features_columns:
  "select_cols d CONTINUOUS_FEATURES = Inr cs \<Longrightarrow> columns (assign_features d X) = columns d"
  unfolding assign_features_def
  by (rule assign_loop_columns) (rule select_cols_present)

lemma normalize_features_columns:
  "normalize_features now method tr = (Inr d, tr') \<Longrightarrow>
   columns d = columns (df tr) \<and> df_transformed tr' = Some d \<and> df tr' = df tr"
  by (auto simp: normalize_features_def log_normalization_def Let_def assign_features_columns
           split: if_splits sum.splits)

lemma normalize_features_fresh:
  "fst (normalize_features now method tr) =
   fst (normalize_features now method (init_transformer (df tr)))"
  by (simp add: normalize_features_def log_normalization_def Let_def init_transformer_def
           split: sum.splits)

lemma compute_derived_features_df:
  "compute_derived_features now tr = (r, tr') \<Longrightarrow> df tr' = df tr"
  by (auto simp: compute_derived_features_def Let_def split: sum.splits)

lemmas example_eval =
  CONTINUOUS_FEATURES_def example_df_def init_transformer_def len_df_def getitem_def
  setitem_def Let_def

lemmas outlier_eval =
  detect_outliers_def feature_info_def outlier_mask_def iqr_mask_def quantile_def
  select_index_def

lemmas normalize_eval =
  normalize_features_def log_normalization_def select_cols_def check_array_def
  assign_features_def scaling_params_def List.map_filter_def
  minmax_fit_def minmax_transform_def min_list_opt_def max_list_opt_def

lemmas derive_eval =
  compute_derived_features_def temp_difference_def power_estimate_def wear_category_def
  pd_cut_def series_op_def scalar_op_def sub_dtype_def

text \<open>
  C5. A successful call of \<open>detect_outliers\<close>, \<open>normalize_features\<close> or
  \<open>compute_derived_features\<close> leaves the transformation log as it was before the call,
  followed by exactly one new record. The record carries the clock reading of the call,
  the operation type and the parameters of the operation: method, threshold and the
  per-feature outlier counts; method, feature list and the per-feature parameters that the
  chosen scaler fitted on the dataset; the names of the derived features. Whatever the
  outcome of a call, the log after it is the log before it with at most one record added
  at the end: the log only grows and keeps the order of the calls.
\<close>

theorem transformation_log_append:
  "(detect_outliers now method_a threshold tr = (Inr report, tr_a) \<longrightarrow>
      transformation_log tr_a = transformation_log tr @
        [\<lparr>timestamp = now, operation = ''outlier_detection'',
          details = OutlierDetails method_a threshold (map (\<lambda>(k, v). (k, count v)) report)\<rparr>]) \<and>
   (normalize_features now method_b tr = (Inr d_b, tr_b) \<longrightarrow>
      (\<exists>cs X. select_cols (df tr) CONTINUOUS_FEATURES = Inr cs \<and>
         check_array (df tr) cs = Inr X \<and>
         transformation_log tr_b = transformation_log tr @
           [\<lparr>timestamp = now, operation = ''normalization'',
             details = NormalizationDetails method_b CONTINUOUS_FEATURES
               (if method_b = ''standard'' then scaling_params ''mean'' ''std'' (map standard_fit X)
                else if method_b = ''minmax'' then scaling_params ''min'' ''max'' (map minmax_fit X)
                else scaling_params ''center'' ''scale'' (map robust_fit X))\<rparr>])) \<and>
   (compute_derived_features now tr = (Inr d_c, tr_c) \<longrightarrow>
      transformation_log tr_c = transformation_log tr @
        [\<lparr>timestamp = now, operation = ''feature_engineering'',
          details = FeatureDetails [''Temp_Difference'', ''Power_Estimate'', ''Tool_Wear_Category'']
            ''Added temperature difference, power estimate, and tool wear category''\<rparr>]) \<and>
   (\<exists>es. transformation_log (snd (detect_outliers now method_a threshold tr)) =
           transformation_log tr @ es \<and> length es \<le> 1) \<and>
   (\<exists>es. transformation_log (snd (normalize_features now method_b tr)) =
           transformation_log tr @ es \<and> length es \<le> 1) \<and>
   (\<exists>es. transformation_log (snd (compute_derived_features now tr)) =
           transformation_log tr @ es \<and> length es \<le> 1)"
proof (intro conjI impI)
  assume "detect_outliers now method_a threshold tr = (Inr report, tr_a)"
  then show "transformation_log tr_a = transformation_log tr @
        [\<lparr>timestamp = now, operation = ''outlier_detection'',
          details = OutlierDetails method_a threshold (map (\<lambda>(k, v). (k, count v)) report)\<rparr>]"
    by (rule detect_outliers_log)
next
  assume "normalize_features now method_b tr = (Inr d_b, tr_b)"
  then show "\<exists>cs X. select_cols (df tr) CONTINUOUS_FEATURES = Inr cs \<and>
         check_array (df tr) cs = Inr X \<and>
         transformation_log tr_b = transformation_log tr @
           [\<lparr>timestamp = now, operation = ''normalization'',
             details = NormalizationDetails method_b CONTINUOUS_FEATURES
               (if method_b = ''standard'' then scaling_params ''mean'' ''std'' (map standard_fit X)
                else if method_b = ''minmax'' then scaling_params ''min'' ''max'' (map minmax_fit X)
                else scaling_params ''center'' ''scale'' (map robust_fit X))\<rparr>]"
    by (rule normalize_features_log)
next
  assume "compute_derived_features now tr = (Inr d_c, tr_c)"
  then show "transformation_log tr_c = transformation_log tr @
        [\<lparr>timestamp = now, operation = ''feature_engineering'',
          details = FeatureDetails [''Temp_Difference'', ''Power_Estimate'', ''Tool_Wear_Category'']
            ''Added temperature difference, power estimate, and tool wear category''\<rparr>]"
    by (rule compute_derived_features_log)
next
  show "\<exists>es. transformation_log (snd (detect_outliers now method_a threshold tr)) =
           transformation_log tr @ es \<and> length es \<le> 1"
    by (cases "fst (detect_outliers now method_a threshold tr)")
       (simp_all add: detect_outliers_def split: sum.splits)
next
  obtain r tr' where n: "normalize_features now method_b tr = (r, tr')"
    by (cases "normalize_features now method_b tr")
  show "\<exists>es. transformation_log (snd (normalize_features now method_b tr)) =
           transformation_log tr @ es \<and> length es \<le> 1"
  proof (cases r)
    case (Inl e)
    then show ?thesis using n normalize_features_fail_log [of now method_b tr e tr'] by simp
  next
    case (Inr d)
    then show ?thesis using n normalize_features_log [of now method_b tr d tr'] by auto
  qed
next
  obtain r tr' where c: "compute_derived_features now tr = (r, tr')"
    by (cases "compute_derived_features now tr")
  show "\<exists>es. transformation_log (snd (compute_derived_features now tr)) =
           transformation_log tr @ es \<and> length es \<le> 1"
  proof (cases r)
    case (Inl e)
    then show ?thesis using c compute_derived_features_fail_log [of now tr e tr'] by simp
  next
    case (Inr d)
    then show ?thesis using c compute_derived_features_log [of now tr d tr'] by simp
  qed
qed

text \<open>The three operations on the small dataset.\<close>

lemma example_outliers:
  "fst (detect_outliers ''t1'' ''iqr'' 1.5 (init_transformer example_df)) =
     Inr [(''Air temperature [K]'', \<lparr>count = 0, percentage = 0, indices = Some []\<rparr>),
          (''Process temperature [K]'', \<lparr>count = 0, percentage = 0, indices = Some []\<rparr>),
          (''Rotational speed [rpm]'', \<lparr>count = 0, percentage = 0, indices = Some []\<rparr>),
          (''Torque [Nm]'', \<lparr>count = 0, percentage = 0, indices = Some []\<rparr>),
          (''Tool wear [min]'', \<lparr>count = 1, percentage = 20, indices = Some [4]\<rparr>)]"
  by (simp add: example_eval outlier_eval)

lemma example_minmax:
  "fst (normalize_features ''t2'' ''minmax'' (init_transformer example_df)) =
     Inr \<lparr>index = [0, 1, 2, 3, 4],
          cols =
            [(''Type'', \<lparr>dtype = ''object'', cells = [Txt ''M'', Txt ''L'', Txt ''L'', Txt ''H'', Txt ''L'']\<rparr>),
             (''Air temperature [K]'',
                \<lparr>dtype = ''float64'', cells = [Num 0, Num (1 / 2), Num 0, Num (1 / 2), Num 1]\<rparr>),
             (''Process temperature [K]'',
                \<lparr>dtype = ''float64'', cells = [Num (1 / 2), Num 1, Num 0, Num (1 / 2), Num 1]\<rparr>),
             (''Rotational speed [rpm]'',
                \<lparr>dtype = ''float64'', cells = [Num 1, Num 0, Num (45 / 46), Num (25 / 92), Num (13 / 23)]\<rparr>),
             (''Torque [Nm]'',
                \<lparr>dtype = ''float64'', cells = [Num (25 / 99), Num (68 / 99), Num 1, Num 0, Num (5 / 99)]\<rparr>),
             (''Tool wear [min]'',
                \<lparr>dtype = ''float64'', cells = [Num 0, Num (5 / 21), Num (5 / 14), Num (10 / 21), Num 1]\<rparr>)]\<rparr>"
  by (simp add: example_eval normalize_eval)

lemma example_derived_ok:
  "\<exists>d. fst (compute_derived_features now (init_transformer example_df)) = Inr d"
  by (simp add: example_eval derive_eval)

text \<open>C5 on the small dataset: the three successful calls, and the record each one logs.\<close>

theorem transformation_log_append_witness:
  "transformation_log (snd (detect_outliers ''t1'' ''iqr'' 1.5 (init_transformer example_df))) =
     [\<lparr>timestamp = ''t1'', operation = ''outlier_detection'',
       details = OutlierDetails ''iqr'' 1.5
         [(''Air temperature [K]'', 0), (''Process temperature [K]'', 0),
          (''Rotational speed [rpm]'', 0), (''Torque [Nm]'', 0), (''Tool wear [min]'', 1)]\<rparr>] \<and>
   transformation_log (snd (normalize_features ''t2'' ''minmax'' (init_transformer example_df))) =
     [\<lparr>timestamp = ''t2'', operation = ''normalization'',
       details = NormalizationDetails ''minmax'' CONTINUOUS_FEATURES
         [(''Air temperature [K]'', [(''min'', Some 298.1), (''max'', Some 298.3)]),
          (''Process temperature [K]'', [(''min'', Some 308.5), (''max'', Some 308.7)]),
          (''Rotational speed [rpm]'', [(''min'', Some 1408), (''max'', Some 1500)]),
          (''Torque [Nm]'', [(''min'', Some 39.5), (''max'', Some 49.4)]),
          (''Tool wear [min]'', [(''min'', Some 0), (''max'', Some 420)])]\<rparr>] \<and>
   transformation_log (snd (compute_derived_features ''t3'' (init_transformer example_df))) =
     [\<lparr>timestamp = ''t3'', operation = ''feature_engineering'',
       details = FeatureDetails [''Temp_Difference'', ''Power_Estimate'', ''Tool_Wear_Category'']
         ''Added temperature difference, power estimate, and tool wear category''\<rparr>]"
proof -
  let ?tr = "init_transformer example_df"
  have a: "detect_outliers ''t1'' ''iqr'' 1.5 ?tr =
             (Inr [(''Air temperature [K]'', \<lparr>count = 0, percentage = 0, indices = Some []\<rparr>),
          (''Process temperature [K]'', \<lparr>count = 0, percentage = 0, indices = Some []\<rparr>),
          (''Rotational speed [rpm]'', \<lparr>count = 0, percentage = 0, indices = Some []\<rparr>),
          (''Torque [Nm]'', \<lparr>count = 0, percentage = 0, indices = Some []\<rparr>),
          (''Tool wear [min]'', \<lparr>count = 1, percentage = 20, indices = Some [4]\<rparr>)],
              snd (detect_outliers ''t1'' ''iqr'' 1.5 ?tr))"
    using example_outliers by (metis prod.collapse)
  obtain d2 where b: "normalize_features ''t2'' ''minmax'' ?tr =
                        (Inr d2, snd (normalize_features ''t2'' ''minmax'' ?tr))"
    using example_minmax by (metis prod.collapse)
  obtain d3 where c: "compute_derived_features ''t3'' ?tr =
                        (Inr d3, snd (compute_derived_features ''t3'' ?tr))"
    using example_derived_ok by (metis prod.collapse)
  have log0: "transformation_log ?tr = []"
    by (simp add: init_transformer_def)
  have 1: "transformation_log (snd (detect_outliers ''t1'' ''iqr'' 1.5 ?tr)) =
     [\<lparr>timestamp = ''t1'', operation = ''outlier_detection'',
       details = OutlierDetails ''iqr'' 1.5
         [(''Air temperature [K]'', 0), (''Process temperature [K]'', 0),
          (''Rotational speed [rpm]'', 0), (''Torque [Nm]'', 0), (''Tool wear [min]'', 1)]\<rparr>]"
    using transformation_log_append [where now = "''t1''" and tr = ?tr, THEN conjunct1, rule_format, OF a]
    by (simp add: log0)
  have sel: "select_cols (df ?tr) CONTINUOUS_FEATURES =
      Inr [\<lparr>dtype = ''float64'', cells = [Num 298.1, Num 298.2, Num 298.1, Num 298.2, Num 298.3]\<rparr>,
           \<lparr>dtype = ''float64'', cells = [Num 308.6, Num 308.7, Num 308.5, Num 308.6, Num 308.7]\<rparr>,
           \<lparr>dtype = ''int64'', cells = [Num 1500, Num 1408, Num 1498, Num 1433, Num 1460]\<rparr>,
           \<lparr>dtype = ''float64'', cells = [Num 42.0, Num 46.3, Num 49.4, Num 39.5, Num 40.0]\<rparr>,
           \<lparr>dtype = ''int64'', cells = [Num 0, Num 100, Num 150, Num 200, Num 420]\<rparr>]"
    by (simp add: example_eval select_cols_def List.map_filter_def)
  have 2: "transformation_log (snd (normalize_features ''t2'' ''minmax'' ?tr)) =
     [\<lparr>timestamp = ''t2'', operation = ''normalization'',
       details = NormalizationDetails ''minmax'' CONTINUOUS_FEATURES
         [(''Air temperature [K]'', [(''min'', Some 298.1), (''max'', Some 298.3)]),
          (''Process temperature [K]'', [(''min'', Some 308.5), (''max'', Some 308.7)]),
          (''Rotational speed [rpm]'', [(''min'', Some 1408), (''max'', Some 1500)]),
          (''Torque [Nm]'', [(''min'', Some 39.5), (''max'', Some 49.4)]),
          (''Tool wear [min]'', [(''min'', Some 0), (''max'', Some 420)])]\<rparr>]"
  proof -
    from transformation_log_append [where now = "''t2''" and tr = ?tr, THEN conjunct2, THEN conjunct1, rule_format, OF b]
    obtain cs X where cs: "select_cols (df ?tr) CONTINUOUS_FEATURES = Inr cs"
      and X: "check_array (df ?tr) cs = Inr X"
      and log: "transformation_log (snd (normalize_features ''t2'' ''minmax'' ?tr)) =
                  transformation_log ?tr @
                  [\<lparr>timestamp = ''t2'', operation = ''normalization'',
                    details = NormalizationDetails ''minmax'' CONTINUOUS_FEATURES
                      (scaling_params ''min'' ''max'' (map minmax_fit X))\<rparr>]"
      by auto
    have "X = [[Some 298.1, Some 298.2, Some 298.1, Some 298.2, Some 298.3],
               [Some 308.6, Some 308.7, Some 308.5, Some 308.6, Some 308.7],
               [Some 1500, Some 1408, Some 1498, Some 1433, Some 1460],
               [Some 42.0, Some 46.3, Some 49.4, Some 39.5, Some 40.0],
               [Some 0, Some 100, Some 150, Some 200, Some 420]]"
      using cs X unfolding sel by (auto simp: check_array_def example_eval)
    then show ?thesis
      unfolding log log0
      by (simp add: scaling_params_def minmax_fit_def min_list_opt_def max_list_opt_def
            CONTINUOUS_FEATURES_def)
  qed
  have 3: "transformation_log (snd (compute_derived_features ''t3'' ?tr)) =
     [\<lparr>timestamp = ''t3'', operation = ''feature_engineering'',
       details = FeatureDetails [''Temp_Difference'', ''Power_Estimate'', ''Tool_Wear_Category'']
         ''Added temperature difference, power estimate, and tool wear category''\<rparr>]"
    using transformation_log_append [where now = "''t3''" and tr = ?tr, THEN conjunct2, THEN conjunct2,
            THEN conjunct1, rule_format, OF c]
    by (simp add: log0)
  from 1 2 3 show ?thesis by blast
qed

text \<open>
  C10. What \<open>normalize_features\<close> returns depends on the original dataset only: it is
  what a newly built transformer over the same dataset returns. In particular, after an
  earlier \<open>compute_derived_features\<close>, a successful \<open>normalize_features\<close> stores and
  returns a frame with exactly the columns of the original dataset, so a derived column
  that the original dataset does not have is absent from it, and the logged parameters
  are those fitted on the original values.
\<close>

theorem normalize_features_from_original:
  "(fst (normalize_features now scaling_method tr0) =
      fst (normalize_features now scaling_method (init_transformer (df tr0)))) \<and>
   (compute_derived_features now' tr = (r, tr_a) \<and>
    normalize_features now scaling_method tr_a = (Inr d, tr_b) \<longrightarrow>
      fst (normalize_features now scaling_method (init_transformer (df tr))) = Inr d \<and>
      df_transformed tr_b = Some d \<and>
      columns d = columns (df tr) \<and>
      (\<forall>name \<in> set [''Temp_Difference'', ''Power_Estimate'', ''Tool_Wear_Category''].
         name \<notin> set (columns (df tr)) \<longrightarrow> name \<notin> set (columns d)) \<and>
      (\<exists>cs X. select_cols (df tr) CONTINUOUS_FEATURES = Inr cs \<and>
         check_array (df tr) cs = Inr X \<and>
         details (last (transformation_log tr_b)) =
           NormalizationDetails scaling_method CONTINUOUS_FEATURES
             (if scaling_method = ''standard'' then scaling_params ''mean'' ''std'' (map standard_fit X)
              else if scaling_method = ''minmax'' then scaling_params ''min'' ''max'' (map minmax_fit X)
              else scaling_params ''center'' ''scale'' (map robust_fit X))))"
proof (intro conjI impI)
  show "fst (normalize_features now scaling_method tr0) =
        fst (normalize_features now scaling_method (init_transformer (df tr0)))"
    by (rule normalize_features_fresh)
next
  assume a: "compute_derived_features now' tr = (r, tr_a) \<and>
             normalize_features now scaling_method tr_a = (Inr d, tr_b)"
  then have same: "df tr_a = df tr"
    by (auto dest: compute_derived_features_df)
  from a have n: "normalize_features now scaling_method tr_a = (Inr d, tr_b)" by simp
  have "fst (normalize_features now scaling_method tr_a) =
        fst (normalize_features now scaling_method (init_transformer (df tr_a)))"
    by (rule normalize_features_fresh)
  then show "fst (normalize_features now scaling_method (init_transformer (df tr))) = Inr d"
    using n same by simp
  from normalize_features_columns [OF n]
  show "df_transformed tr_b = Some d" and c: "columns d = columns (df tr)"
    using same by simp_all
  from c show "\<forall>name \<in> set [''Temp_Difference'', ''Power_Estimate'', ''Tool_Wear_Category''].
         name \<notin> set (columns (df tr)) \<longrightarrow> name \<notin> set (columns d)"
    by simp
  from normalize_features_log [OF n]
  show "\<exists>cs X. select_cols (df tr) CONTINUOUS_FEATURES = Inr cs \<and>
         check_array (df tr) cs = Inr X \<and>
         details (last (transformation_log tr_b)) =
           NormalizationDetails scaling_method CONTINUOUS_FEATURES
             (if scaling_method = ''standard'' then scaling_params ''mean'' ''std'' (map standard_fit X)
              else if scaling_method = ''minmax'' then scaling_params ''min'' ''max'' (map minmax_fit X)
              else scaling_params ''center'' ''scale'' (map robust_fit X))"
    unfolding same by auto
qed

lemma example_derived:
  "df_transformed (snd (compute_derived_features ''t1'' (init_transformer example_df))) =
     Some \<lparr>index = [0, 1, 2, 3, 4],
          cols = cols example_df @
            [(''Temp_Difference'',
                \<lparr>dtype = ''float64'', cells = [Num 10.5, Num 10.5, Num 10.4, Num 10.4, Num 10.4]\<rparr>),
             (''Power_Estimate'',
                \<lparr>dtype = ''float64'',
                 cells = [Num (42 * 1500 * 2 * pi / 60), Num (46.3 * 1408 * 2 * pi / 60),
                          Num (49.4 * 1498 * 2 * pi / 60), Num (39.5 * 1433 * 2 * pi / 60),
                          Num (40 * 1460 * 2 * pi / 60)]\<rparr>),
             (''Tool_Wear_Category'',
                \<lparr>dtype = ''category'',
                 cells = [NaN, Txt ''Low'', Txt ''Medium'', Txt ''Medium'', Txt ''High'']\<rparr>)]\<rparr>"
  by (simp add: example_eval derive_eval)

lemma example_derived_df:
  "df (snd (compute_derived_features ''t1'' (init_transformer example_df))) = example_df"
  by (simp add: compute_derived_features_df [OF prod.collapse [symmetric]] init_transformer_def)

text \<open>C10 on the small dataset: the derived columns are there after
  \<open>compute_derived_features\<close> and gone after the following \<open>normalize_features\<close>.\<close>

theorem normalize_features_from_original_witness:
  "columns (the (df_transformed (snd (compute_derived_features ''t1'' (init_transformer example_df))))) =
     columns example_df @ [''Temp_Difference'', ''Power_Estimate'', ''Tool_Wear_Category''] \<and>
   (\<exists>d. fst (normalize_features ''t2'' ''minmax''
              (snd (compute_derived_features ''t1'' (init_transformer example_df)))) = Inr d \<and>
        fst (normalize_features ''t2'' ''minmax'' (init_transformer example_df)) = Inr d \<and>
        columns d = columns example_df \<and>
        ''Temp_Difference'' \<notin> set (columns d) \<and> ''Power_Estimate'' \<notin> set (columns d) \<and>
        ''Tool_Wear_Category'' \<notin> set (columns d))"
proof -
  let ?tr = "init_transformer example_df"
  let ?tr_a = "snd (compute_derived_features ''t1'' ?tr)"
  have a: "compute_derived_features ''t1'' ?tr = (fst (compute_derived_features ''t1'' ?tr), ?tr_a)"
    by simp
  have "fst (normalize_features ''t2'' ''minmax'' ?tr_a) =
        fst (normalize_features ''t2'' ''minmax'' (init_transformer (df ?tr_a)))"
    by (rule normalize_features_fresh)
  then obtain d where "fst (normalize_features ''t2'' ''minmax'' ?tr_a) = Inr d"
    using example_minmax by (simp add: example_derived_df)
  then have b: "normalize_features ''t2'' ''minmax'' ?tr_a =
                  (Inr d, snd (normalize_features ''t2'' ''minmax'' ?tr_a))"
    by (metis prod.collapse)
  have dfs: "df ?tr = example_df"
    by (simp add: init_transformer_def)
  have absent: "''Temp_Difference'' \<notin> set (columns example_df)"
    "''Power_Estimate'' \<notin> set (columns example_df)"
    "''Tool_Wear_Category'' \<notin> set (columns example_df)"
    by (simp_all add: columns_def example_df_def)
  from normalize_features_from_original
         [where now = "''t2''" and scaling_method = "''minmax''" and tr = ?tr and now' = "''t1''",
          THEN conjunct2, rule_format, OF conjI [OF a b]]
  have "fst (normalize_features ''t2'' ''minmax'' ?tr) = Inr d \<and> columns d = columns example_df \<and>
        ''Temp_Difference'' \<notin> set (columns d) \<and> ''Power_Estimate'' \<notin> set (columns d) \<and>
        ''Tool_Wear_Category'' \<notin> set (columns d)"
    using absent by (simp add: dfs)
  moreover have "columns (the (df_transformed ?tr_a)) =
     columns example_df @ [''Temp_Difference'', ''Power_Estimate'', ''Tool_Wear_Category'']"
    by (simp add: example_derived columns_def)
  ultimately show ?thesis
    using \<open>fst (normalize_features ''t2'' ''minmax'' ?tr_a) = Inr d\<close> by blast
qed

subsection \<open>Derived features\<close>

lemma numeric_length: "numeric cs = Inr xs \<Longrightarrow> length xs = length cs"
  by (induction cs arbitrary: xs rule: numeric.induct) (auto split: sum.splits)

lemma numeric_nth:
  "numeric cs = Inr xs \<Longrightarrow> i < length cs \<Longrightarrow> cs ! i = Num x \<Longrightarrow> xs ! i = Some x"
proof (induction cs arbitrary: xs i rule: numeric.induct)
  case 1
  then show ?case by simp
next
  case (2 y cs)
  then show ?case by (cases i) (auto split: sum.splits)
next
  case (3 cs)
  then show ?case by (cases i) (auto split: sum.splits)
next
  case (4 s cs)
  then show ?case by simp
qed

lemma compute_derived_features_result:
  "compute_derived_features now tr = (Inr d, tr') \<Longrightarrow>
   \<exists>c1 c2 c3. temp_difference (df tr) = Inr c1 \<and> power_estimate (df tr) = Inr c2 \<and>
     wear_category (df tr) = Inr c3 \<and> getitem d ''Temp_Difference'' = Inr c1 \<and>
     getitem d ''Power_Estimate'' = Inr c2 \<and> getitem d ''Tool_Wear_Category'' = Inr c3"
  by (auto simp: compute_derived_features_def Let_def getitem_setitem_same getitem_setitem_other
           split: sum.splits)

lemma tool_wear_category_bins:
  "0 < w \<Longrightarrow>
   (tool_wear_category w = Txt ''Low'' \<longleftrightarrow> w \<le> 100) \<and>
   (tool_wear_category w = Txt ''Medium'' \<longleftrightarrow> 100 < w \<and> w \<le> 200) \<and>
   (tool_wear_category w = Txt ''High'' \<longleftrightarrow> 200 < w)"
  by (auto simp: tool_wear_category_def)

lemma wear_category_nth:
  assumes "wear_category d = Inr c" and "getitem d ''Tool wear [min]'' = Inr wc"
    and "i < length (cells wc)" and "cells wc ! i = Num w"
  shows "i < length (cells c) \<and> cells c ! i = tool_wear_category w"
proof -
  from assms(1,2) obtain ws where ws: "numeric (cells wc) = Inr ws"
    and c: "c = pd_cut ws [Fin 0, Fin 100, Fin 200, PInf] [''Low'', ''Medium'', ''High'']"
    by (auto simp: wear_category_def split: sum.splits)
  have len: "length ws = length (cells wc)" using ws by (rule numeric_length)
  have nth: "ws ! i = Some w" using ws assms(3,4) by (rule numeric_nth)
  show ?thesis
    using len nth assms(3) by (simp add: c pd_cut_def tool_wear_category_def)
qed

text \<open>
  C4, as the code has it. For a positive tool-wear value \<open>w\<close> the category is \<open>Low\<close>
  exactly when \<open>w \<le> 100\<close>, \<open>Medium\<close> exactly when \<open>100 < w \<le> 200\<close> and \<open>High\<close> exactly
  when \<open>200 < w\<close>: the bins are open on the left and closed on the right, and the top bin
  is unbounded above.
\<close>

theorem tool_wear_bins:
  "compute_derived_features now tr = (Inr d, tr') \<Longrightarrow>
   getitem (df tr) ''Tool wear [min]'' = Inr wc \<Longrightarrow>
   i < length (cells wc) \<Longrightarrow> cells wc ! i = Num w \<Longrightarrow> 0 < w \<Longrightarrow>
   \<exists>c. getitem d ''Tool_Wear_Category'' = Inr c \<and> i < length (cells c) \<and>
       cells c ! i = tool_wear_category w \<and>
       (cells c ! i = Txt ''Low'' \<longleftrightarrow> w \<le> 100) \<and>
       (cells c ! i = Txt ''Medium'' \<longleftrightarrow> 100 < w \<and> w \<le> 200) \<and>
       (cells c ! i = Txt ''High'' \<longleftrightarrow> 200 < w)"
proof -
  assume run: "compute_derived_features now tr = (Inr d, tr')"
    and wc: "getitem (df tr) ''Tool wear [min]'' = Inr wc"
    and i: "i < length (cells wc)" and w: "cells wc ! i = Num w" and pos: "0 < w"
  from compute_derived_features_result [OF run]
  obtain c where c: "wear_category (df tr) = Inr c"
    and g: "getitem d ''Tool_Wear_Category'' = Inr c"
    by blast
  from wear_category_nth [OF c wc i w]
  have "i < length (cells c)" and "cells c ! i = tool_wear_category w"
    by simp_all
  then show ?thesis
    using g tool_wear_category_bins [OF pos] by simp
qed

text \<open>
  C4 as stated fails at the bin boundaries: the value 100 is \<open>Low\<close>, not \<open>Medium\<close>, and 200
  is \<open>Medium\<close>, not \<open>High\<close>. The wear column 0, 100, 150, 200, 420 of the small dataset
  gets the categories missing, Low, Medium, Medium, High.
\<close>

theorem tool_wear_boundary_counterexample:
  "tool_wear_category 100 = Txt ''Low'' \<and> tool_wear_category 100 \<noteq> Txt ''Medium'' \<and>
   tool_wear_category 200 = Txt ''Medium'' \<and> tool_wear_category 200 \<noteq> Txt ''High'' \<and>
   wear_category example_df =
     Inr \<lparr>dtype = ''category'',
          cells = [NaN, Txt ''Low'', Txt ''Medium'', Txt ''Medium'', Txt ''High'']\<rparr>"
  by (simp add: tool_wear_category_def wear_category_def pd_cut_def getitem_def example_df_def)

lemma example_tool_wear:
  "getitem example_df ''Tool wear [min]'' =
     Inr \<lparr>dtype = ''int64'', cells = [Num 0, Num 100, Num 150, Num 200, Num 420]\<rparr>"
  by (simp add: getitem_def example_df_def)

text \<open>C4 on the small dataset, rows 1, 2 and 4 (wear 100, 150 and 420).\<close>

theorem tool_wear_bins_witness:
  "(0 :: real) < 100 \<and>
   (\<exists>d c. fst (compute_derived_features ''t1'' (init_transformer example_df)) = Inr d \<and>
      getitem d ''Tool_Wear_Category'' = Inr c \<and> cells c ! 1 = Txt ''Low'' \<and>
      cells c ! 2 = Txt ''Medium'' \<and> cells c ! 4 = Txt ''High'')"
proof -
  let ?tr = "init_transformer example_df"
  obtain d where d: "compute_derived_features ''t1'' ?tr =
                       (Inr d, snd (compute_derived_features ''t1'' ?tr))"
    using example_derived_ok [of "''t1''"] by (metis prod.collapse)
  have wc: "getitem (df ?tr) ''Tool wear [min]'' =
              Inr \<lparr>dtype = ''int64'', cells = [Num 0, Num 100, Num 150, Num 200, Num 420]\<rparr>"
    by (simp add: init_transformer_def example_tool_wear)
  from tool_wear_bins [OF d wc, of 1 100]
  obtain c where c: "getitem d ''Tool_Wear_Category'' = Inr c" and c1: "cells c ! 1 = Txt ''Low''"
    by auto
  from tool_wear_bins [OF d wc, of 2 150] c
  have c2: "cells c ! 2 = Txt ''Medium''"
    by auto
  from tool_wear_bins [OF d wc, of 4 420] c
  have c4: "cells c ! 4 = Txt ''High''"
    by auto
  from d have "fst (compute_derived_features ''t1'' ?tr) = Inr d"
    by (metis fst_conv)
  with c c1 c2 c4 show ?thesis by auto
qed

text \<open>Bounds on \<open>pi\<close> from Machin's formula and the series of the arc tangent.\<close>

lemma arctan_series_bounds:
  fixes x :: real
  assumes "0 < x" and "x \<le> 1"
  shows "(\<Sum>i<2 * n. (- 1) ^ i * (1 / real (i * 2 + 1) * x ^ (i * 2 + 1))) \<le> arctan x"
    and "arctan x \<le> (\<Sum>i<2 * n + 1. (- 1) ^ i * (1 / real (i * 2 + 1) * x ^ (i * 2 + 1)))"
proof -
  have ax: "\<bar>x\<bar> \<le> 1" using assms by simp
  have pos: "0 < 1 / real (0 * 2 + 1) * x ^ (0 * 2 + 1)" using assms by simp
  from summable_Leibniz(2) [OF zeroseq_arctan_series [OF ax] monoseq_arctan_series [OF ax], rule_format, OF pos, of n]
  have "(\<Sum>k. (- 1) ^ k * (1 / real (k * 2 + 1) * x ^ (k * 2 + 1)))
          \<in> {\<Sum>i<2 * n. (- 1) ^ i * (1 / real (i * 2 + 1) * x ^ (i * 2 + 1)) ..
             \<Sum>i<2 * n + 1. (- 1) ^ i * (1 / real (i * 2 + 1) * x ^ (i * 2 + 1))}" .
  then show "(\<Sum>i<2 * n. (- 1) ^ i * (1 / real (i * 2 + 1) * x ^ (i * 2 + 1))) \<le> arctan x"
    and "arctan x \<le> (\<Sum>i<2 * n + 1. (- 1) ^ i * (1 / real (i * 2 + 1) * x ^ (i * 2 + 1)))"
    unfolding arctan_series [OF ax] by simp_all
qed

lemma pi_bounds: "3.14159 < pi" "pi < 3.141593"
proof -
  have l5: "(\<Sum>i<4. (- 1) ^ i * (1 / real (i * 2 + 1) * (1 / 5) ^ (i * 2 + 1))) \<le> arctan (1 / 5 :: real)"
    using arctan_series_bounds(1) [of "1 / 5" 2] by simp
  have u5: "arctan (1 / 5 :: real) \<le> (\<Sum>i<5. (- 1) ^ i * (1 / real (i * 2 + 1) * (1 / 5) ^ (i * 2 + 1)))"
    using arctan_series_bounds(2) [of "1 / 5" 2] by simp
  have l239: "(\<Sum>i<2. (- 1) ^ i * (1 / real (i * 2 + 1) * (1 / 239) ^ (i * 2 + 1))) \<le> arctan (1 / 239 :: real)"
    using arctan_series_bounds(1) [of "1 / 239" 1] by simp
  have u239: "arctan (1 / 239 :: real) \<le> (\<Sum>i<3. (- 1) ^ i * (1 / real (i * 2 + 1) * (1 / 239) ^ (i * 2 + 1)))"
    using arctan_series_bounds(2) [of "1 / 239" 1] by simp
  have p: "pi = 16 * arctan (1 / 5) - 4 * arctan (1 / 239)"
    using machin by simp
  have e4: "(\<Sum>i<4. (- 1) ^ i * (1 / real (i * 2 + 1) * (1 / 5) ^ (i * 2 + 1))) = (1/5 - 1/375 + 1/15625 - 1/546875 :: real)"
    by (simp add: eval_nat_numeral)
  have e5: "(\<Sum>i<5. (- 1) ^ i * (1 / real (i * 2 + 1) * (1 / 5) ^ (i * 2 + 1))) = (1/5 - 1/375 + 1/15625 - 1/546875 + 1/17578125 :: real)"
    by (simp add: eval_nat_numeral)
  have e2: "(\<Sum>i<2. (- 1) ^ i * (1 / real (i * 2 + 1) * (1 / 239) ^ (i * 2 + 1))) = (1/239 - 1/40955757 :: real)"
    by (simp add: eval_nat_numeral)
  have e3: "(\<Sum>i<3. (- 1) ^ i * (1 / real (i * 2 + 1) * (1 / 239) ^ (i * 2 + 1))) = (1/239 - 1/40955757 + 1/3899056325995 :: real)"
    by (simp add: eval_nat_numeral)
  show "3.14159 < pi"
    using l5 u239 unfolding p e4 e3 by simp
  show "pi < 3.141593"
    using u5 l239 unfolding p e5 e2 by simp
qed

lemma power_estimate_nth:
  assumes "power_estimate d = Inr c" and "getitem d ''Torque [Nm]'' = Inr tc"
    and "getitem d ''Rotational speed [rpm]'' = Inr rc"
    and "i < length (cells tc)" and "i < length (cells rc)"
    and "cells tc ! i = Num t" and "cells rc ! i = Num s"
  shows "i < length (cells c) \<and> cells c ! i = Num (t * s * 2 * pi / 60)"
proof -
  from assms(1,2,3) obtain ts rs where ts: "numeric (cells tc) = Inr ts"
    and rs: "numeric (cells rc) = Inr rs"
    and c: "cells c = map to_cell
              (scalar_op (/) (scalar_op (*) (scalar_op (*) (series_op (*) ts rs) 2) pi) 60)"
    by (auto simp: power_estimate_def split: sum.splits)
  have lt: "length ts = length (cells tc)" using ts by (rule numeric_length)
  have lr: "length rs = length (cells rc)" using rs by (rule numeric_length)
  have nt: "ts ! i = Some t" using ts assms(4,6) by (rule numeric_nth)
  have nr: "rs ! i = Some s" using rs assms(5,7) by (rule numeric_nth)
  show ?thesis
    using lt lr nt nr assms(4,5) by (simp add: c scalar_op_def series_op_def)
qed

text \<open>
  C8. In every row where torque and rotational speed are numbers, the derived
  \<open>Power_Estimate\<close> is torque times rotational speed times \<open>2 pi / 60\<close>, computed from
  the columns of the original dataset whatever has been stored in \<open>df_transformed\<close>
  before. For torque 42.0 and 1500 rpm the value is within 0.05 of 6597.3.
\<close>

theorem power_estimate_value:
  "compute_derived_features now tr = (Inr d, tr') \<Longrightarrow>
   getitem (df tr) ''Torque [Nm]'' = Inr tc \<Longrightarrow>
   getitem (df tr) ''Rotational speed [rpm]'' = Inr rc \<Longrightarrow>
   i < length (cells tc) \<Longrightarrow> i < length (cells rc) \<Longrightarrow>
   cells tc ! i = Num t \<Longrightarrow> cells rc ! i = Num s \<Longrightarrow>
   \<exists>c x. getitem d ''Power_Estimate'' = Inr c \<and> i < length (cells c) \<and>
       cells c ! i = Num x \<and> x = t * s * (2 * pi / 60) \<and>
       (t = 42 \<and> s = 1500 \<longrightarrow> \<bar>x - 6597.3\<bar> < 0.05)"
proof -
  assume run: "compute_derived_features now tr = (Inr d, tr')"
    and tc: "getitem (df tr) ''Torque [Nm]'' = Inr tc"
    and rc: "getitem (df tr) ''Rotational speed [rpm]'' = Inr rc"
    and i: "i < length (cells tc)" "i < length (cells rc)"
    and t: "cells tc ! i = Num t" and s: "cells rc ! i = Num s"
  from compute_derived_features_result [OF run]
  obtain c where c: "power_estimate (df tr) = Inr c"
    and g: "getitem d ''Power_Estimate'' = Inr c"
    by blast
  from power_estimate_nth [OF c tc rc i t s]
  have len: "i < length (cells c)" and v: "cells c ! i = Num (t * s * 2 * pi / 60)"
    by simp_all
  have eq: "t * s * 2 * pi / 60 = t * s * (2 * pi / 60)"
    by simp
  have v': "cells c ! i = Num (t * s * (2 * pi / 60))"
    using v by (simp only: eq)
  have "\<bar>42 * 1500 * (2 * pi / 60) - 6597.3\<bar> < (0.05 :: real)"
    using pi_bounds by simp
  then have approx: "t = 42 \<and> s = 1500 \<longrightarrow> \<bar>t * s * (2 * pi / 60) - 6597.3\<bar> < 0.05"
    by blast
  show ?thesis
    using g len v' approx by blast
qed

lemma derive_after_normalize_ok:
  "\<exists>d. fst (compute_derived_features ''t1''
            (snd (normalize_features ''t0'' ''minmax'' (init_transformer example_df)))) = Inr d"
  by (simp add: example_eval derive_eval normalize_eval)

text \<open>C8 on the small dataset, after a min-max normalisation: row 0 has torque 42.0 and
  1500 rpm, and its power estimate is computed from these, not from the scaled values.\<close>

theorem power_estimate_value_witness:
  "\<exists>d c. fst (compute_derived_features ''t1''
              (snd (normalize_features ''t0'' ''minmax'' (init_transformer example_df)))) = Inr d \<and>
     getitem d ''Power_Estimate'' = Inr c \<and>
     cells c ! 0 = Num (42 * 1500 * (2 * pi / 60)) \<and>
     \<bar>42 * 1500 * (2 * pi / 60) - 6597.3\<bar> < (0.05 :: real)"
proof -
  let ?tr = "snd (normalize_features ''t0'' ''minmax'' (init_transformer example_df))"
  obtain d where d: "compute_derived_features ''t1'' ?tr =
                       (Inr d, snd (compute_derived_features ''t1'' ?tr))"
    using derive_after_normalize_ok by (metis prod.collapse)
  have dfs: "df ?tr = example_df"
    by (simp add: normalize_eval example_eval)
  have tc: "getitem (df ?tr) ''Torque [Nm]'' =
              Inr \<lparr>dtype = ''float64'', cells = [Num 42.0, Num 46.3, Num 49.4, Num 39.5, Num 40.0]\<rparr>"
    unfolding dfs by (simp add: getitem_def example_df_def)
  have rc: "getitem (df ?tr) ''Rotational speed [rpm]'' =
              Inr \<lparr>dtype = ''int64'', cells = [Num 1500, Num 1408, Num 1498, Num 1433, Num 1460]\<rparr>"
    unfolding dfs by (simp add: getitem_def example_df_def)
  from power_estimate_value [OF d tc rc, of 0 42 1500]
  obtain c x where "getitem d ''Power_Estimate'' = Inr c" and "cells c ! 0 = Num x"
    and "x = 42 * 1500 * (2 * pi / 60)" and "\<bar>x - 6597.3\<bar> < 0.05"
    by auto
  moreover from d have "fst (compute_derived_features ''t1'' ?tr) = Inr d"
    by (metis fst_conv)
  ultimately show ?thesis by blast
qed

subsection \<open>Outlier counts\<close>

lemma interpolation_between:
  fixes lo hi f :: real
  assumes "lo \<le> hi" and "0 \<le> f" and "f \<le> 1"
  shows "lo \<le> lo + (hi - lo) * f" and "lo + (hi - lo) * f \<le> hi"
proof -
  have d: "0 \<le> hi - lo" using assms(1) by simp
  show "lo \<le> lo + (hi - lo) * f"
    using mult_nonneg_nonneg [OF d assms(2)] by simp
  have "(hi - lo) * f \<le> (hi - lo) * 1"
    using d assms(3) by (rule mult_left_mono [rotated])
  then show "lo + (hi - lo) * f \<le> hi" by simp
qed

lemma quantile_mono:
  assumes q: "0 \<le> q1" "q1 \<le> q2" "q2 \<le> 1"
    and a: "quantile q1 vs = Some a" and b: "quantile q2 vs = Some b"
  shows "a \<le> b"
proof -
  have ne: "vs \<noteq> []"
    using a by (auto simp: quantile_def split: if_splits)
  define s where "s = sort vs"
  define m where "m = length s - 1"
  define p1 where "p1 = q1 * real m"
  define p2 where "p2 = q2 * real m"
  define l1 where "l1 = nat \<lfloor>p1\<rfloor>"
  define l2 where "l2 = nat \<lfloor>p2\<rfloor>"
  define h1 where "h1 = min (l1 + 1) m"
  define h2 where "h2 = min (l2 + 1) m"
  have srt: "sorted s" by (simp add: s_def)
  have len: "length s = Suc m"
    using ne by (cases vs) (simp_all add: m_def s_def)
  have a': "a = s ! l1 + (s ! h1 - s ! l1) * (p1 - real l1)"
    using a ne by (simp add: quantile_def Let_def s_def m_def p1_def l1_def h1_def)
  have b': "b = s ! l2 + (s ! h2 - s ! l2) * (p2 - real l2)"
    using b ne by (simp add: quantile_def Let_def s_def m_def p2_def l2_def h2_def)
  have p1_nonneg: "0 \<le> p1" using q by (simp add: p1_def)
  have p12: "p1 \<le> p2" using q by (simp add: p1_def p2_def mult_right_mono)
  have p2_nonneg: "0 \<le> p2" using p1_nonneg p12 by simp
  have p2_le: "p2 \<le> real m"
    using q mult_right_mono [of q2 1 "real m"] by (simp add: p2_def)
  have l12: "l1 \<le> l2"
    unfolding l1_def l2_def using p12 by (intro nat_mono floor_mono)
  have l2_le: "l2 \<le> m"
  proof -
    have "\<lfloor>p2\<rfloor> \<le> int m" using p2_le by (simp add: floor_le_iff)
    then show ?thesis by (simp add: l2_def)
  qed
  have rl1: "real l1 = of_int \<lfloor>p1\<rfloor>" using p1_nonneg by (simp add: l1_def)
  have rl2: "real l2 = of_int \<lfloor>p2\<rfloor>" using p2_nonneg by (simp add: l2_def)
  have f1: "0 \<le> p1 - real l1" "p1 - real l1 \<le> 1"
    unfolding rl1 by linarith+
  have f2: "0 \<le> p2 - real l2" "p2 - real l2 \<le> 1"
    unfolding rl2 by linarith+
  have h1_le: "h1 \<le> m" and h2_le: "h2 \<le> m" by (simp_all add: h1_def h2_def)
  have lh1: "l1 \<le> h1" using l12 l2_le by (simp add: h1_def)
  have lh2: "l2 \<le> h2" using l2_le by (simp add: h2_def)
  have s1: "s ! l1 \<le> s ! h1"
    using srt lh1 h1_le len by (simp add: sorted_nth_mono)
  have s2: "s ! l2 \<le> s ! h2"
    using srt lh2 h2_le len by (simp add: sorted_nth_mono)
  show ?thesis
  proof (cases "l1 = l2")
    case True
    then have h: "h1 = h2" by (simp add: h1_def h2_def)
    have "p1 - real l1 \<le> p2 - real l2" using p12 True by simp
    moreover have "0 \<le> s ! h2 - s ! l2" using s2 by simp
    ultimately have "(s ! h2 - s ! l2) * (p1 - real l1) \<le> (s ! h2 - s ! l2) * (p2 - real l2)"
      by (rule mult_left_mono)
    then show ?thesis unfolding a' b' using True h by simp
  next
    case False
    then have "l1 < l2" using l12 by simp
    then have "h1 \<le> l2" by (simp add: h1_def)
    then have "s ! h1 \<le> s ! l2"
      using srt l2_le len by (simp add: sorted_nth_mono)
    moreover have "a \<le> s ! h1"
      unfolding a' using s1 f1 by (rule interpolation_between(2))
    moreover have "s ! l2 \<le> b"
      unfolding b' using s2 f2 by (rule interpolation_between(1))
    ultimately show ?thesis by linarith
  qed
qed

lemma count_selected_mono:
  assumes "\<And>x. Q x \<Longrightarrow> P x"
  shows "length (filter snd (zip idx (map Q xs))) \<le> length (filter snd (zip idx (map P xs)))"
proof (induction xs arbitrary: idx)
  case Nil
  then show ?case by simp
next
  case (Cons x xs)
  show ?case
  proof (cases idx)
    case Nil
    then show ?thesis by simp
  next
    case (Cons j js)
    then show ?thesis
      using Cons.IH [of js] assms [of x] by (auto simp: le_SucI)
  qed
qed

lemma iqr_mask_unfold:
  "iqr_mask t xs =
     (case quantile (1 / 4) (dropna xs) of None \<Rightarrow> map (\<lambda>c. False) xs
      | Some Q1 \<Rightarrow>
          (case quantile (3 / 4) (dropna xs) of None \<Rightarrow> map (\<lambda>c. False) xs
           | Some Q3 \<Rightarrow>
               map (\<lambda>c. case c of None \<Rightarrow> False
                    | Some x \<Rightarrow> x < Q1 - t * (Q3 - Q1) \<or> x > Q3 + t * (Q3 - Q1)) xs))"
  by (simp add: iqr_mask_def Let_def split: option.splits)

lemma iqr_mask_antitone:
  assumes "t1 \<le> t2"
  shows "length (filter snd (zip idx (iqr_mask t2 xs))) \<le>
         length (filter snd (zip idx (iqr_mask t1 xs)))"
proof (cases "quantile (1 / 4) (dropna xs)")
  case None
  then show ?thesis by (simp add: iqr_mask_unfold)
next
  case (Some Q1)
  note q1 = this
  show ?thesis
  proof (cases "quantile (3 / 4) (dropna xs)")
    case None
    then show ?thesis by (simp add: iqr_mask_unfold q1)
  next
    case (Some Q3)
    have "Q1 \<le> Q3"
      by (rule quantile_mono [OF _ _ _ q1 Some]) simp_all
    then have iqr: "0 \<le> Q3 - Q1" by simp
    have m: "t1 * (Q3 - Q1) \<le> t2 * (Q3 - Q1)"
      using assms iqr by (rule mult_right_mono)
    have imp: "(case c of None \<Rightarrow> False
                | Some x \<Rightarrow> x < Q1 - t2 * (Q3 - Q1) \<or> x > Q3 + t2 * (Q3 - Q1)) \<Longrightarrow>
               (case c of None \<Rightarrow> False
                | Some x \<Rightarrow> x < Q1 - t1 * (Q3 - Q1) \<or> x > Q3 + t1 * (Q3 - Q1))" for c
      using m by (cases c) auto
    have "length (filter snd (zip idx (map (\<lambda>c. case c of None \<Rightarrow> False
                | Some x \<Rightarrow> x < Q1 - t2 * (Q3 - Q1) \<or> x > Q3 + t2 * (Q3 - Q1)) xs))) \<le>
          length (filter snd (zip idx (map (\<lambda>c. case c of None \<Rightarrow> False
                | Some x \<Rightarrow> x < Q1 - t1 * (Q3 - Q1) \<or> x > Q3 + t1 * (Q3 - Q1)) xs)))"
      by (rule count_selected_mono) (rule imp)
    then show ?thesis
      by (simp add: iqr_mask_unfold q1 Some)
  qed
qed

lemma feature_info_iqr_count:
  assumes "feature_info ''iqr'' t d feature = Inr e"
  shows "\<exists>c xs. getitem d feature = Inr c \<and> numeric (cells c) = Inr xs \<and>
           count e = length (filter snd (zip (index d) (iqr_mask t xs)))"
  using assms
  by (auto simp: feature_info_def outlier_mask_def select_index_def Let_def
           split: sum.splits if_splits)

lemma feature_info_iqr_antitone:
  assumes "t1 \<le> t2"
    and "feature_info ''iqr'' t1 d feature = Inr e1"
    and "feature_info ''iqr'' t2 d feature = Inr e2"
  shows "count e2 \<le> count e1"
proof -
  from feature_info_iqr_count [OF assms(2)]
  obtain c xs where c: "getitem d feature = Inr c" and xs: "numeric (cells c) = Inr xs"
    and e1: "count e1 = length (filter snd (zip (index d) (iqr_mask t1 xs)))"
    by blast
  from feature_info_iqr_count [OF assms(3)] c xs
  have e2: "count e2 = length (filter snd (zip (index d) (iqr_mask t2 xs)))"
    by auto
  show ?thesis
    unfolding e1 e2 using assms(1) by (rule iqr_mask_antitone)
qed

lemma outlier_loop_lookup:
  "outlier_loop method t d fs = Inr r \<Longrightarrow> feature \<in> set fs \<Longrightarrow>
   \<exists>e. feature_info method t d feature = Inr e \<and> map_of r feature = Some e"
proof (induction fs arbitrary: r)
  case Nil
  then show ?case by simp
next
  case (Cons f fs)
  then show ?case by (auto split: sum.splits)
qed

text \<open>
  C6. With the IQR method the number of flagged rows of every feature is antitone in the
  threshold: when two runs on the same dataset succeed, the run with the larger threshold
  flags at most as many rows of each feature as the other one. This covers the thresholds
  1.5 and 3.0.
\<close>

theorem iqr_outlier_count_antitone:
  "t1 \<le> t2 \<Longrightarrow>
   detect_outliers now1 ''iqr'' t1 tr = (Inr r1, tr1) \<Longrightarrow>
   detect_outliers now2 ''iqr'' t2 tr = (Inr r2, tr2) \<Longrightarrow>
   feature \<in> set CONTINUOUS_FEATURES \<Longrightarrow>
   \<exists>e1 e2. map_of r1 feature = Some e1 \<and> map_of r2 feature = Some e2 \<and> count e2 \<le> count e1"
proof -
  assume t: "t1 \<le> t2"
    and a: "detect_outliers now1 ''iqr'' t1 tr = (Inr r1, tr1)"
    and b: "detect_outliers now2 ''iqr'' t2 tr = (Inr r2, tr2)"
    and f: "feature \<in> set CONTINUOUS_FEATURES"
  from a have "outlier_loop ''iqr'' t1 (df tr) CONTINUOUS_FEATURES = Inr r1"
    by (auto simp: detect_outliers_def split: sum.splits)
  from outlier_loop_lookup [OF this f]
  obtain e1 where e1: "feature_info ''iqr'' t1 (df tr) feature = Inr e1" "map_of r1 feature = Some e1"
    by blast
  from b have "outlier_loop ''iqr'' t2 (df tr) CONTINUOUS_FEATURES = Inr r2"
    by (auto simp: detect_outliers_def split: sum.splits)
  from outlier_loop_lookup [OF this f]
  obtain e2 where e2: "feature_info ''iqr'' t2 (df tr) feature = Inr e2" "map_of r2 feature = Some e2"
    by blast
  from feature_info_iqr_antitone [OF t e1(1) e2(1)] e1(2) e2(2)
  show ?thesis by blast
qed

lemma example_outliers_wide:
  "fst (detect_outliers ''t2'' ''iqr'' 3 (init_transformer example_df)) =
     Inr [(''Air temperature [K]'', \<lparr>count = 0, percentage = 0, indices = Some []\<rparr>),
          (''Process temperature [K]'', \<lparr>count = 0, percentage = 0, indices = Some []\<rparr>),
          (''Rotational speed [rpm]'', \<lparr>count = 0, percentage = 0, indices = Some []\<rparr>),
          (''Torque [Nm]'', \<lparr>count = 0, percentage = 0, indices = Some []\<rparr>),
          (''Tool wear [min]'', \<lparr>count = 0, percentage = 0, indices = Some []\<rparr>)]"
  by (simp add: example_eval outlier_eval)

text \<open>C6 on the small dataset with the thresholds 1.5 and 3.0: one row of the wear column
  is flagged at 1.5 and none at 3.0.\<close>

theorem iqr_outlier_count_antitone_witness:
  "(1.5 :: real) \<le> 3 \<and> ''Tool wear [min]'' \<in> set CONTINUOUS_FEATURES \<and>
   (\<exists>r1 r2 e1 e2.
      fst (detect_outliers ''t1'' ''iqr'' 1.5 (init_transformer example_df)) = Inr r1 \<and>
      fst (detect_outliers ''t2'' ''iqr'' 3 (init_transformer example_df)) = Inr r2 \<and>
      map_of r1 ''Tool wear [min]'' = Some e1 \<and> map_of r2 ''Tool wear [min]'' = Some e2 \<and>
      count e1 = 1 \<and> count e2 = 0 \<and> count e2 \<le> count e1)"
proof -
  let ?tr = "init_transformer example_df"
  let ?r1 = "[(''Air temperature [K]'', \<lparr>count = 0, percentage = 0, indices = Some []\<rparr>),
          (''Process temperature [K]'', \<lparr>count = 0, percentage = 0, indices = Some []\<rparr>),
          (''Rotational speed [rpm]'', \<lparr>count = 0, percentage = 0, indices = Some []\<rparr>),
          (''Torque [Nm]'', \<lparr>count = 0, percentage = 0, indices = Some []\<rparr>),
          (''Tool wear [min]'', \<lparr>count = 1, percentage = 20, indices = Some [4]\<rparr>)]"
  let ?r2 = "[(''Air temperature [K]'', \<lparr>count = 0, percentage = 0, indices = Some []\<rparr>),
          (''Process temperature [K]'', \<lparr>count = 0, percentage = 0, indices = Some []\<rparr>),
          (''Rotational speed [rpm]'', \<lparr>count = 0, percentage = 0, indices = Some []\<rparr>),
          (''Torque [Nm]'', \<lparr>count = 0, percentage = 0, indices = Some []\<rparr>),
          (''Tool wear [min]'', \<lparr>count = 0, percentage = 0, indices = Some []\<rparr>)]"
  have a: "detect_outliers ''t1'' ''iqr'' 1.5 ?tr =
             (Inr ?r1, snd (detect_outliers ''t1'' ''iqr'' 1.5 ?tr))"
    using example_outliers by (metis prod.collapse)
  have b: "detect_outliers ''t2'' ''iqr'' 3 ?tr =
             (Inr ?r2, snd (detect_outliers ''t2'' ''iqr'' 3 ?tr))"
    using example_outliers_wide by (metis prod.collapse)
  have t: "(1.5 :: real) \<le> 3" by simp
  have f: "''Tool wear [min]'' \<in> set CONTINUOUS_FEATURES"
    by (simp add: CONTINUOUS_FEATURES_def)
  from iqr_outlier_count_antitone [OF t a b f]
  obtain e1 e2 where "map_of ?r1 ''Tool wear [min]'' = Some e1"
    and "map_of ?r2 ''Tool wear [min]'' = Some e2" and "count e2 \<le> count e1"
    by blast
  moreover from this have "count e1 = 1" and "count e2 = 0"
    by auto
  ultimately show ?thesis
    using t f example_outliers example_outliers_wide by blast
qed

section \<open>Properties of the exporter\<close>

text \<open>The two digests on the test vector \<open>abc\<close>.\<close>

lemma sha256_abc:
  "hex (sha256 [0x61, 0x62, 0x63]) =
     ''ba7816bf8f01cfea414140de5dae2223b00361a396177a9cb410ff61f20015ad''"
  by code_simp

lemma md5_abc:
  "hex (md5 [0x61, 0x62, 0x63]) = ''900150983cd24fb0d6963f7d28e17f72''"
  by code_simp

lemma read_chunks_all: "read_chunks h content = h\<lparr>fed := fed h @ content\<rparr>"
proof (induction h content rule: read_chunks.induct)
  case (1 hash_func rest)
  show ?case
  proof (cases "take 4096 rest = []")
    case True
    then have "rest = []" by simp
    then show ?thesis by (simp add: read_chunks.simps [of hash_func "[]"])
  next
    case False
    have "read_chunks hash_func rest =
          read_chunks (update hash_func (take 4096 rest)) (drop 4096 rest)"
      using False by (subst read_chunks.simps) (simp add: Let_def)
    also have "\<dots> = (update hash_func (take 4096 rest))
                       \<lparr>fed := fed (update hash_func (take 4096 rest)) @ drop 4096 rest\<rparr>"
      using False by (intro "1.IH") simp_all
    also have "\<dots> = hash_func\<lparr>fed := fed hash_func @ rest\<rparr>"
      by (simp add: update_def)
    finally show ?thesis .
  qed
qed

lemma calculate_checksum_sha256:
  "calculate_checksum fs file_path ''sha256'' =
     (case fs file_path of None \<Rightarrow> Inl (FileNotFoundError file_path)
      | Some content \<Rightarrow> Inr (hex (sha256 content)))"
  by (simp add: calculate_checksum_def read_chunks_all hexdigest_def hashlib_sha256_def
           split: option.split)

lemma calculate_checksum_written:
  "calculate_checksum (fs(p \<mapsto> content)) p ''sha256'' = Inr (hex (sha256 content))"
  by (simp add: calculate_checksum_sha256)

text \<open>
  C1. \<open>calculate_checksum\<close> reads the file in chunks of 4096 bytes, and what it returns
  is the SHA-256 digest of the whole content of the file, so it is a function of the
  content alone. Each export that writes a file appends one entry to the export log; the
  checksum in that entry is the digest of the bytes just written, and computing the
  checksum again on the file the entry names gives the recorded value. A parquet export
  without an engine writes and logs nothing.
\<close>

theorem checksum_integrity:
  "calculate_checksum fs file_path ''sha256'' =
     (case fs file_path of None \<Rightarrow> Inl (FileNotFoundError file_path)
      | Some content \<Rightarrow> Inr (hex (sha256 content))) \<and>
   (case export_csv io now name include_index (fs, ex) of (r, fs', ex') \<Rightarrow>
      r = Inr (path_join (output_dir ex) name) \<and>
      (\<exists>e. export_log ex' = export_log ex @ [e] \<and>
           fs' (path e) = Some (to_csv io (exp_df ex) include_index) \<and>
           checksum_sha256 e = hex (sha256 (to_csv io (exp_df ex) include_index)) \<and>
           calculate_checksum fs' (path e) ''sha256'' = Inr (checksum_sha256 e))) \<and>
   (case export_json io now name orient' (fs, ex) of (r, fs', ex') \<Rightarrow>
      r = Inr (path_join (output_dir ex) name) \<and>
      (\<exists>e. export_log ex' = export_log ex @ [e] \<and>
           fs' (path e) = Some (to_json io (exp_df ex) orient') \<and>
           checksum_sha256 e = hex (sha256 (to_json io (exp_df ex) orient')) \<and>
           calculate_checksum fs' (path e) ''sha256'' = Inr (checksum_sha256 e))) \<and>
   (case to_parquet io (exp_df ex) compression' of
      None \<Rightarrow> export_parquet io now name compression' (fs, ex) = (Inr None, fs, ex)
    | Some content \<Rightarrow>
        (case export_parquet io now name compression' (fs, ex) of (r, fs', ex') \<Rightarrow>
           r = Inr (Some (path_join (output_dir ex) name)) \<and>
           (\<exists>e. export_log ex' = export_log ex @ [e] \<and>
                fs' (path e) = Some content \<and>
                checksum_sha256 e = hex (sha256 content) \<and>
                calculate_checksum fs' (path e) ''sha256'' = Inr (checksum_sha256 e))))"
proof (intro conjI)
  show "calculate_checksum fs file_path ''sha256'' =
     (case fs file_path of None \<Rightarrow> Inl (FileNotFoundError file_path)
      | Some content \<Rightarrow> Inr (hex (sha256 content)))"
    by (rule calculate_checksum_sha256)
next
  show "case export_csv io now name include_index (fs, ex) of (r, fs', ex') \<Rightarrow>
      r = Inr (path_join (output_dir ex) name) \<and>
      (\<exists>e. export_log ex' = export_log ex @ [e] \<and>
           fs' (path e) = Some (to_csv io (exp_df ex) include_index) \<and>
           checksum_sha256 e = hex (sha256 (to_csv io (exp_df ex) include_index)) \<and>
           calculate_checksum fs' (path e) ''sha256'' = Inr (checksum_sha256 e))"
    by (simp add: export_csv_def Let_def calculate_checksum_written st_size_def)
next
  show "case export_json io now name orient' (fs, ex) of (r, fs', ex') \<Rightarrow>
      r = Inr (path_join (output_dir ex) name) \<and>
      (\<exists>e. export_log ex' = export_log ex @ [e] \<and>
           fs' (path e) = Some (to_json io (exp_df ex) orient') \<and>
           checksum_sha256 e = hex (sha256 (to_json io (exp_df ex) orient')) \<and>
           calculate_checksum fs' (path e) ''sha256'' = Inr (checksum_sha256 e))"
    by (simp add: export_json_def Let_def calculate_checksum_written st_size_def)
next
  show "case to_parquet io (exp_df ex) compression' of
      None \<Rightarrow> export_parquet io now name compression' (fs, ex) = (Inr None, fs, ex)
    | Some content \<Rightarrow>
        (case export_parquet io now name compression' (fs, ex) of (r, fs', ex') \<Rightarrow>
           r = Inr (Some (path_join (output_dir ex) name)) \<and>
           (\<exists>e. export_log ex' = export_log ex @ [e] \<and>
                fs' (path e) = Some content \<and>
                checksum_sha256 e = hex (sha256 content) \<and>
                calculate_checksum fs' (path e) ''sha256'' = Inr (checksum_sha256 e)))"
    by (simp add: export_parquet_def Let_def calculate_checksum_written st_size_def
             split: option.split)
qed

section \<open>Properties of the loader\<close>

lemma missing_cols_empty_iff:
  "remdups (filter (\<lambda>c. c \<notin> set (columns d)) EXPECTED_COLUMNS) = [] \<longleftrightarrow>
   set EXPECTED_COLUMNS \<subseteq> set (columns d)"
  by (auto simp: filter_empty_conv)

lemma all_passed_results_of:
  "all_passed (results_of d) \<longleftrightarrow> set EXPECTED_COLUMNS \<subseteq> set (columns d)"
  unfolding missing_cols_empty_iff [symmetric]
  by (simp add: all_passed_def results_of_def Let_def)

text \<open>
  C2. On a loaded dataset \<open>validate_structure\<close> reports the five checks, each under
  its own key. The column check is FAIL exactly when an expected column is missing from
  the dataset and PASS otherwise; each of the other four checks is PASS or WARN. The gate
  of the orchestrator therefore ends the run exactly when an expected column is missing.
\<close>

theorem validate_structure_statuses:
  "validate_structure (ld\<lparr>ld_df := Some d\<rparr>) =
     Inr (results_of d, ld\<lparr>ld_df := Some d, validation_results := results_of d\<rparr>) \<and>
   map fst (results_of d) =
     [''row_count'', ''columns'', ''data_types'', ''missing_values'', ''duplicates''] \<and>
   (map_option status (map_of (results_of d) ''columns'') = Some ''FAIL'' \<longleftrightarrow>
      \<not> set EXPECTED_COLUMNS \<subseteq> set (columns d)) \<and>
   (map_option status (map_of (results_of d) ''columns'') = Some ''PASS'' \<longleftrightarrow>
      set EXPECTED_COLUMNS \<subseteq> set (columns d)) \<and>
   map_option status (map_of (results_of d) ''row_count'') =
     Some (if len_df d = EXPECTED_ROWS then ''PASS'' else ''WARN'') \<and>
   map_option status (map_of (results_of d) ''data_types'') =
     Some (if dtype_mismatches d EXPECTED_DTYPES = [] then ''PASS'' else ''WARN'') \<and>
   map_option status (map_of (results_of d) ''missing_values'') =
     Some (if count_null d = 0 then ''PASS'' else ''WARN'') \<and>
   map_option status (map_of (results_of d) ''duplicates'') =
     Some (if count_duplicated [] (row_values d) = 0 then ''PASS'' else ''WARN'') \<and>
   (validation_gate (results_of d) = Exit 1 \<longleftrightarrow> \<not> set EXPECTED_COLUMNS \<subseteq> set (columns d)) \<and>
   (validation_gate (results_of d) = Continue \<longleftrightarrow> set EXPECTED_COLUMNS \<subseteq> set (columns d))"
proof (intro conjI)
  show "validate_structure (ld\<lparr>ld_df := Some d\<rparr>) =
     Inr (results_of d, ld\<lparr>ld_df := Some d, validation_results := results_of d\<rparr>)"
    by (simp add: validate_structure_def)
  show "map fst (results_of d) =
     [''row_count'', ''columns'', ''data_types'', ''missing_values'', ''duplicates'']"
    by (simp add: results_of_def Let_def)
  show "map_option status (map_of (results_of d) ''columns'') = Some ''FAIL'' \<longleftrightarrow>
      \<not> set EXPECTED_COLUMNS \<subseteq> set (columns d)"
    unfolding missing_cols_empty_iff [symmetric] by (simp add: results_of_def Let_def)
  show "map_option status (map_of (results_of d) ''columns'') = Some ''PASS'' \<longleftrightarrow>
      set EXPECTED_COLUMNS \<subseteq> set (columns d)"
    unfolding missing_cols_empty_iff [symmetric] by (simp add: results_of_def Let_def)
  show "map_option status (map_of (results_of d) ''row_count'') =
     Some (if len_df d = EXPECTED_ROWS then ''PASS'' else ''WARN'')"
    by (simp add: results_of_def Let_def)
  show "map_option status (map_of (results_of d) ''data_types'') =
     Some (if dtype_mismatches d EXPECTED_DTYPES = [] then ''PASS'' else ''WARN'')"
    by (simp add: results_of_def Let_def)
  show "map_option status (map_of (results_of d) ''missing_values'') =
     Some (if count_null d = 0 then ''PASS'' else ''WARN'')"
    by (simp add: results_of_def Let_def)
  show "map_option status (map_of (results_of d) ''duplicates'') =
     Some (if count_duplicated [] (row_values d) = 0 then ''PASS'' else ''WARN'')"
    by (simp add: results_of_def Let_def)
  show "validation_gate (results_of d) = Exit 1 \<longleftrightarrow> \<not> set EXPECTED_COLUMNS \<subseteq> set (columns d)"
    by (simp add: validation_gate_def all_passed_results_of)
  show "validation_gate (results_of d) = Continue \<longleftrightarrow> set EXPECTED_COLUMNS \<subseteq> set (columns d)"
    by (simp add: validation_gate_def all_passed_results_of)
qed

section \<open>Properties of the provenance logger\<close>

lemma record_call_frame:
  "project_name (record_call now c p) = project_name p \<and>
   creation_timestamp (record_call now c p) = creation_timestamp p"
  by (cases c)
     (simp_all add: log_dataset_source_def log_workflow_step_def log_transformation_def
        log_quality_check_def log_export_def capture_system_environment_def
        add_curator_info_def add_notes_def)

lemmas recording_defs =
  log_dataset_source_def log_workflow_step_def log_transformation_def
  log_quality_check_def log_export_def capture_system_environment_def
  add_curator_info_def add_notes_def

lemma run_calls_project: "project_name (run_calls cs p) = project_name p"
  by (induction cs p rule: run_calls.induct) (simp_all add: record_call_frame)

lemma run_calls_creation: "creation_timestamp (run_calls cs p) = creation_timestamp p"
  by (induction cs p rule: run_calls.induct) (simp_all add: record_call_frame)

lemma run_calls_workflow:
  "curation_workflow (run_calls cs p) = curation_workflow p @ steps_logged cs"
proof (induction cs p rule: run_calls.induct)
  case (1 p)
  then show ?case by simp
next
  case (2 now c cs p)
  then show ?case by (cases c) (simp_all add: recording_defs)
qed

lemma run_calls_transformations:
  "data_transformations (run_calls cs p) = data_transformations p @ transformations_logged cs"
proof (induction cs p rule: run_calls.induct)
  case (1 p)
  then show ?case by simp
next
  case (2 now c cs p)
  then show ?case by (cases c) (simp_all add: recording_defs)
qed

lemma run_calls_checks:
  "quality_checks (run_calls cs p) = quality_checks p @ checks_logged cs"
proof (induction cs p rule: run_calls.induct)
  case (1 p)
  then show ?case by simp
next
  case (2 now c cs p)
  then show ?case by (cases c) (simp_all add: recording_defs)
qed

lemma run_calls_exports:
  "exports (run_calls cs p) = exports p @ exports_logged cs"
proof (induction cs p rule: run_calls.induct)
  case (1 p)
  then show ?case by simp
next
  case (2 now c cs p)
  then show ?case by (cases c) (simp_all add: recording_defs)
qed

lemma run_calls_notes:
  "prov_notes (run_calls cs p) =
     (if notes_logged cs = [] then prov_notes p
      else Some ((case prov_notes p of None \<Rightarrow> [] | Some ns \<Rightarrow> ns) @ notes_logged cs))"
proof (induction cs p rule: run_calls.induct)
  case (1 p)
  then show ?case by simp
next
  case (2 now c cs p)
  then show ?case by (cases c) (simp_all add: recording_defs)
qed

lemma run_calls_source:
  "dataset_source (run_calls cs p) = source_after cs (dataset_source p)"
proof (induction cs p rule: run_calls.induct)
  case (1 p)
  then show ?case by simp
next
  case (2 now c cs p)
  then show ?case by (cases c) (simp_all add: recording_defs)
qed

lemma run_calls_curator:
  "curator (run_calls cs p) = curator_after cs (curator p)"
proof (induction cs p rule: run_calls.induct)
  case (1 p)
  then show ?case by simp
next
  case (2 now c cs p)
  then show ?case by (cases c) (simp_all add: recording_defs)
qed

lemma run_calls_environment:
  "system_environment (run_calls cs p) = environment_after cs (system_environment p)"
proof (induction cs p rule: run_calls.induct)
  case (1 p)
  then show ?case by simp
next
  case (2 now c cs p)
  then show ?case by (cases c) (simp_all add: recording_defs)
qed

text \<open>
  C9, as the code has it. Every record carries the clock reading of its call. After any
  sequence of recording calls, the workflow steps, the transformations, the quality
  checks, the exports and the notes are the earlier lists followed by one record per call
  of that kind, in call order; the project name and the creation time are unchanged. The
  dataset source, the curator and the system environment are single slots, holding what
  the last call of that kind stored.
\<close>

theorem provenance_lists_append_only:
  "project_name (run_calls cs p) = project_name p \<and>
   creation_timestamp (run_calls cs p) = creation_timestamp p \<and>
   curation_workflow (run_calls cs p) = curation_workflow p @ steps_logged cs \<and>
   data_transformations (run_calls cs p) = data_transformations p @ transformations_logged cs \<and>
   quality_checks (run_calls cs p) = quality_checks p @ checks_logged cs \<and>
   exports (run_calls cs p) = exports p @ exports_logged cs \<and>
   prov_notes (run_calls cs p) =
     (if notes_logged cs = [] then prov_notes p
      else Some ((case prov_notes p of None \<Rightarrow> [] | Some ns \<Rightarrow> ns) @ notes_logged cs)) \<and>
   dataset_source (run_calls cs p) = source_after cs (dataset_source p) \<and>
   curator (run_calls cs p) = curator_after cs (curator p) \<and>
   system_environment (run_calls cs p) = environment_after cs (system_environment p)"
  by (simp only: run_calls_project run_calls_creation run_calls_workflow
        run_calls_transformations run_calls_checks run_calls_exports run_calls_notes
        run_calls_source run_calls_curator run_calls_environment simp_thms)

text \<open>
  C9 as stated fails: a second \<open>log_dataset_source\<close> replaces what the first one
  recorded (the title, the DOI and the time of the first call are gone), and a second
  \<open>add_curator_info\<close> replaces the curator.
\<close>

theorem dataset_source_overwritten:
  "dataset_source
     (log_dataset_source ''t2'' [(''title'', JStr ''B'')]
        (log_dataset_source ''t1'' [(''title'', JStr ''A''), (''doi'', JStr ''10.24432/C5HS5C'')]
           (init_provenance ''t0'' ''AI4I_2020_Curation''))) =
     [(''title'', JStr ''B''), (''logged_at'', JStr ''t2'')] \<and>
   dataset_source
     (log_dataset_source ''t1'' [(''title'', JStr ''A''), (''doi'', JStr ''10.24432/C5HS5C'')]
        (init_provenance ''t0'' ''AI4I_2020_Curation'')) =
     [(''title'', JStr ''A''), (''doi'', JStr ''10.24432/C5HS5C''), (''logged_at'', JStr ''t1'')] \<and>
   curator
     (add_curator_info ''t4'' ''B'' ''Y'' None
        (add_curator_info ''t3'' ''A'' ''X'' (Some ''a@x'')
           (init_provenance ''t0'' ''AI4I_2020_Curation''))) =
     Some \<lparr>curator_name = ''B'', institution = ''Y'', contact = None, added_at = ''t4''\<rparr>"
  by (simp add: log_dataset_source_def add_curator_info_def init_provenance_def)

end
